theory Spec2Isabelle
  imports Main
begin

section \<open>gql2ts from-query: the document-to-type compiler\<close>

text \<open>
  A shallow embedding of \<^verbatim>\<open>src/packages/from-query/index.ts\<close>. The closure
  \<^verbatim>\<open>doIt\<close> captures the merged type map, the merged formatting hooks and the parsed
  schema; here they are the fields of an explicit context that every function takes.
  Exceptions are values of a sum type, and the console is a list of entries that every
  effectful function returns next to its result, so that what was printed before a
  throw is still visible.
\<close>

subsection \<open>Schema types (the parts of graphql-js that the compiler reads)\<close>

text \<open>
  A type reference as found in a field definition: a named type, or a list or non-null
  wrapper around another reference. graphql-js links a field to its type object; here
  the link is the type's name, resolved through the schema's \<^verbatim>\<open>getType\<close>.
\<close>

datatype gql_type = Named string | ListOf gql_type | NonNullOf gql_type

type_synonym field_map = "(string \<times> gql_type) list"

datatype GraphQLObjectType = GraphQLObjectType (obj_name: string) (obj_fields: field_map)

datatype named_type =
    ScalarT string
  | EnumT string "string list"
  | ObjectT GraphQLObjectType
  | InterfaceT string field_map
  | UnionT string "GraphQLObjectType list"
  | InputObjectT string field_map

record schema =
  types :: "(string \<times> named_type) list"
  queryType :: "GraphQLObjectType option"
  mutationType :: "GraphQLObjectType option"
  subscriptionType :: "GraphQLObjectType option"

definition getType :: "schema \<Rightarrow> string \<Rightarrow> named_type option" where
  "getType s n = map_of (types s) n"

fun isCompositeType :: "named_type \<Rightarrow> bool" where
  "isCompositeType (ObjectT _) = True"
| "isCompositeType (InterfaceT _ _) = True"
| "isCompositeType (UnionT _ _) = True"
| "isCompositeType _ = False"

text \<open>\<^verbatim>\<open>getNamedType\<close>: strip every wrapper and return the named type underneath.\<close>

fun namedTypeName :: "gql_type \<Rightarrow> string" where
  "namedTypeName (Named n) = n"
| "namedTypeName (ListOf t) = namedTypeName t"
| "namedTypeName (NonNullOf t) = namedTypeName t"

definition getNamedType :: "schema \<Rightarrow> gql_type \<Rightarrow> named_type option" where
  "getNamedType s t = getType s (namedTypeName t)"

subsection \<open>Document nodes\<close>

text \<open>Of a directive node only \<^verbatim>\<open>name.value\<close> is read.\<close>

type_synonym DirectiveNode = string

text \<open>
  \<^verbatim>\<open>OtherSelection\<close> stands for any node kind outside the three that the walker
  handles. An absent alias, directive list or selection set is \<^verbatim>\<open>undefined\<close> in the
  tree and \<open>None\<close> here.
\<close>

datatype selection =
    Field "string option" string "DirectiveNode list option" "selection list option"
  | FragmentSpread string "DirectiveNode list option"
  | InlineFragment "string option" "DirectiveNode list option" "selection list"
  | OtherSelection string

datatype TypeNode = NamedType string | ListType TypeNode | NonNullType TypeNode

datatype VariableDefinitionNode = VariableDefinition (var_name: string) (var_type: TypeNode)

datatype DefinitionNode =
    OperationDefinition string "string option" "VariableDefinitionNode list option" "selection list"
  | FragmentDefinition string string "selection list"
  | OtherDefinition string

subsection \<open>Results, errors and the console\<close>

datatype error =
    UnsupportedOperation
  | UnsupportedSelectionNode
  | UnsupportedDefinition string
  | TypeError

datatype log_entry = ConsoleError string | ConsoleLog selection

type_synonym 'a result = "log_entry list \<times> (error + 'a)"

record IComplexTypeSignature =
  ct_iface :: string
  ct_isPartial :: bool
  ct_name :: "string option"

record IChildren =
  iface :: string
  isFragment :: bool
  isPartial :: bool
  complexTypes :: "IComplexTypeSignature list"

record output_definition =
  variables :: string
  interface :: string
  additionalTypes :: "string list"

subsection \<open>Configuration: type map and formatting hooks\<close>

text \<open>
  \<^verbatim>\<open>ITypeMap\<close> and \<^verbatim>\<open>IOptions\<close> are declared in \<^verbatim>\<open>./types\<close> and their defaults in
  \<^verbatim>\<open>./defaults\<close>; the merged values are parameters here. The key \<^verbatim>\<open>__DEFAULT\<close> of the
  type map is mandatory, every other key is optional; \<open>tm_entries\<close> holds the own
  properties of the merged object.
\<close>

record ITypeMap =
  tm_DEFAULT :: string
  tm_entries :: "string \<Rightarrow> string option"

text \<open>
  The merged type map is a plain object, so \<^verbatim>\<open>TypeMap[k]\<close> also finds the members that
  every object inherits from \<^verbatim>\<open>Object.prototype\<close>. Such a member is a function (for
  \<^verbatim>\<open>__proto__\<close> the prototype object itself), a truthy value that is not a string; the
  hooks handle it as text, so the table gives the text it prints as.
\<close>

definition objectPrototype :: "(string \<times> string) list" where
  "objectPrototype =
     [(''constructor'', ''function Object() { [native code] }''),
      (''__defineGetter__'', ''function __defineGetter__() { [native code] }''),
      (''__defineSetter__'', ''function __defineSetter__() { [native code] }''),
      (''hasOwnProperty'', ''function hasOwnProperty() { [native code] }''),
      (''__lookupGetter__'', ''function __lookupGetter__() { [native code] }''),
      (''__lookupSetter__'', ''function __lookupSetter__() { [native code] }''),
      (''isPrototypeOf'', ''function isPrototypeOf() { [native code] }''),
      (''propertyIsEnumerable'', ''function propertyIsEnumerable() { [native code] }''),
      (''toString'', ''function toString() { [native code] }''),
      (''valueOf'', ''function valueOf() { [native code] }''),
      (''__proto__'', ''[object Object]''),
      (''toLocaleString'', ''function toLocaleString() { [native code] }'')]"

text \<open>\<^verbatim>\<open>TypeMap[k]\<close>: an own property shadows an inherited member of the same name.\<close>

definition tm_get :: "ITypeMap \<Rightarrow> string \<Rightarrow> string option" where
  "tm_get tm k =
     (if k = ''__DEFAULT'' then Some (tm_DEFAULT tm)
      else case tm_entries tm k of
             Some v \<Rightarrow> Some v
           | None \<Rightarrow> map_of objectPrototype k)"

record IOptions =
  buildRootInterfaceName :: "DefinitionNode \<Rightarrow> (DefinitionNode \<Rightarrow> string) \<Rightarrow> (string \<Rightarrow> string) \<Rightarrow> string"
  formatFragmentInterface :: "string \<Rightarrow> string list \<Rightarrow> string list \<Rightarrow> string"
  formatInterface :: "string \<Rightarrow> string list \<Rightarrow> string"
  formatVariableInterface :: "string \<Rightarrow> string list \<Rightarrow> string"
  wrapList :: "string \<Rightarrow> string"
  wrapPartial :: "string \<Rightarrow> string"
  generateSubTypeInterfaceName :: "string \<Rightarrow> nat \<Rightarrow> string option"
  printType :: "string \<Rightarrow> bool \<Rightarrow> string"
  formatInput :: "string \<Rightarrow> bool \<Rightarrow> string \<Rightarrow> string"
  generateFragmentName :: "string \<Rightarrow> string"
  generateQueryName :: "DefinitionNode \<Rightarrow> string"

record ctx =
  TypeMap :: ITypeMap
  options :: IOptions
  parsedSchema :: schema

subsection \<open>JavaScript helpers\<close>

text \<open>\<^verbatim>\<open>Array.prototype.join\<close>.\<close>

fun join :: "string \<Rightarrow> string list \<Rightarrow> string" where
  "join sep [] = []"
| "join sep [x] = x"
| "join sep (x # y # ys) = x @ sep @ join sep (y # ys)"

text \<open>
  Truthiness of a value of type \<^verbatim>\<open>string | null | undefined\<close>: only a non-empty
  string is truthy.
\<close>

fun truthy :: "string option \<Rightarrow> bool" where
  "truthy None = False"
| "truthy (Some s) = (s \<noteq> [])"

text \<open>\<^verbatim>\<open>a || b\<close> on such values, with a string on the right.\<close>

fun or_else :: "string option \<Rightarrow> string \<Rightarrow> string" where
  "or_else None d = d"
| "or_else (Some s) d = (if s \<noteq> [] then s else d)"

text \<open>A template literal prints \<^verbatim>\<open>null\<close> as the four letters.\<close>

fun template_string :: "string option \<Rightarrow> string" where
  "template_string None = ''null''"
| "template_string (Some s) = s"

subsection \<open>Type resolver\<close>

definition handleEnum :: "ctx \<Rightarrow> string list \<Rightarrow> bool \<Rightarrow> string" where
  "handleEnum c vals isNonNull =
     (let decl = join '' | '' (map (\<lambda>en. [CHR 0x27] @ en @ [CHR 0x27]) vals)
      in printType (options c) decl isNonNull)"

text \<open>
  \<^verbatim>\<open>handleRegularType\<close>: \<open>typeValue\<close> is the name of the type, which the source reads
  as \<^verbatim>\<open>type.toString()\<close> from a schema type and as \<^verbatim>\<open>type.name.value\<close> from a
  syntactic type node.
\<close>

definition handleRegularType :: "ctx \<Rightarrow> string \<Rightarrow> bool \<Rightarrow> string option \<Rightarrow> string" where
  "handleRegularType c typeValue isNonNull replacement =
     (let showValue = or_else replacement typeValue;
          show = or_else (tm_get (TypeMap c) showValue)
                   (if truthy replacement then showValue else tm_DEFAULT (TypeMap c))
      in printType (options c) show isNonNull)"

text \<open>
  Modelled from the spec: \<^verbatim>\<open>isList\<close> and \<^verbatim>\<open>isNonNullable\<close> come from the package
  \<^verbatim>\<open>@gql2ts/util\<close>, which is not part of the sources at hand; following the spec's
  "peel List" and "peel NonNull" they are the tests for the two wrappers.
\<close>

fun convertToType :: "ctx \<Rightarrow> gql_type \<Rightarrow> bool \<Rightarrow> string option \<Rightarrow> string" where
  "convertToType c (ListOf t) isNonNull replacement =
     printType (options c) (wrapList (options c) (convertToType c t False replacement)) isNonNull"
| "convertToType c (NonNullOf t) isNonNull replacement = convertToType c t True replacement"
| "convertToType c (Named n) isNonNull replacement =
     (case getType (parsedSchema c) n of
        Some (EnumT _ vals) \<Rightarrow> handleEnum c vals isNonNull
      | _ \<Rightarrow> handleRegularType c n isNonNull replacement)"

definition handleInputObject :: "ctx \<Rightarrow> field_map \<Rightarrow> bool \<Rightarrow> string" where
  "handleInputObject c inputFields isNonNull =
     (let variableDeclarations =
            join (''\<newline>'' @ ''    '')
              (map (\<lambda>(vname, vtype). formatInput (options c) vname True (convertToType c vtype False None))
                 inputFields);
          builder = ''{'' @ ''\<newline>'' @ ''    '' @ variableDeclarations @ ''\<newline>'' @ ''  }''
      in printType (options c) builder isNonNull)"

text \<open>
  \<^verbatim>\<open>handleNamedTypeInput\<close> is only called on a \<^verbatim>\<open>NamedType\<close> node; the argument is
  its \<^verbatim>\<open>name.value\<close>. \<open>None\<close> is the \<^verbatim>\<open>undefined\<close> returned when no branch
  applies.
\<close>

definition handleNamedTypeInput :: "ctx \<Rightarrow> string \<Rightarrow> bool \<Rightarrow> string option" where
  "handleNamedTypeInput c n isNonNull =
     (if n \<noteq> [] then
        (case getType (parsedSchema c) n of
           Some (EnumT _ vals) \<Rightarrow> Some (handleEnum c vals isNonNull)
         | Some (InputObjectT _ inputFields) \<Rightarrow> Some (handleInputObject c inputFields isNonNull)
         | _ \<Rightarrow> None)
      else None)"

fun convertVariable :: "ctx \<Rightarrow> TypeNode \<Rightarrow> bool \<Rightarrow> string option \<Rightarrow> string" where
  "convertVariable c (ListType t) isNonNull replacement =
     printType (options c) (wrapList (options c) (convertVariable c t False replacement)) isNonNull"
| "convertVariable c (NonNullType t) isNonNull replacement = convertVariable c t True replacement"
| "convertVariable c (NamedType n) isNonNull replacement =
     or_else (handleNamedTypeInput c n isNonNull) (handleRegularType c n isNonNull replacement)"

subsection \<open>Directives\<close>

definition UndefinedDirectives :: "string set" where
  "UndefinedDirectives = {''include'', ''skip''}"

text \<open>The pair is what was written to \<^verbatim>\<open>console.error\<close> and the returned boolean.\<close>

definition isUndefinedFromDirective :: "DirectiveNode list option \<Rightarrow> log_entry list \<times> bool" where
  "isUndefinedFromDirective directives =
     (case directives of
        None \<Rightarrow> ([], False)
      | Some ds \<Rightarrow>
          if ds = [] then ([], False)
          else
            (let badDirectives = filter (\<lambda>d. d \<notin> UndefinedDirectives) ds;
                 hasDirectives = list_ex (\<lambda>d. d \<in> UndefinedDirectives) ds
             in ((if badDirectives \<noteq> []
                  then ConsoleError ''Found some unknown directives:'' # map ConsoleError badDirectives
                  else []),
                 hasDirectives)))"

subsection \<open>Selection walker\<close>

text \<open>
  \<^verbatim>\<open>getOperationFields\<close>: the root type for an operation kind, which the schema may
  lack (\<open>None\<close>); an operation kind outside the three throws.
\<close>

definition getOperationFields :: "ctx \<Rightarrow> string \<Rightarrow> error + GraphQLObjectType option" where
  "getOperationFields c operation =
     (if operation = ''query'' then Inr (queryType (parsedSchema c))
      else if operation = ''mutation'' then Inr (mutationType (parsedSchema c))
      else if operation = ''subscription'' then Inr (subscriptionType (parsedSchema c))
      else Inl UnsupportedOperation)"

definition wrapPossiblePartial :: "ctx \<Rightarrow> IChildren \<Rightarrow> string" where
  "wrapPossiblePartial c possiblePartial =
     (if isPartial possiblePartial then wrapPartial (options c) (iface possiblePartial)
      else iface possiblePartial)"

definition flattenComplexTypes :: "IChildren list \<Rightarrow> IComplexTypeSignature list" where
  "flattenComplexTypes children = foldl (\<lambda>acc child. acc @ complexTypes child) [] children"

text \<open>\<^verbatim>\<open>getFields\<close> of a type that has a field map; it is only called on composite types.\<close>

fun getFields :: "named_type \<Rightarrow> field_map" where
  "getFields (ObjectT t) = obj_fields t"
| "getFields (InterfaceT _ fs) = fs"
| "getFields (InputObjectT _ fs) = fs"
| "getFields _ = []"

text \<open>
  The field lookup at the head of the \<^verbatim>\<open>Field\<close> branch (lines 170 to 179). \<open>Inr None\<close>
  is a field that is \<^verbatim>\<open>undefined\<close>; reading \<^verbatim>\<open>getFields\<close> of an absent root type is
  a TypeError.
\<close>

definition lookupField :: "ctx \<Rightarrow> string \<Rightarrow> named_type option \<Rightarrow> string \<Rightarrow> error + gql_type option" where
  "lookupField c operation parent fname =
     (case (case parent of None \<Rightarrow> None | Some p \<Rightarrow> if isCompositeType p then Some p else None) of
        Some (UnionT _ ts) \<Rightarrow>
          Inr (case find (\<lambda>z. z \<noteq> None) (map (\<lambda>t. map_of (obj_fields t) fname) ts) of
                 None \<Rightarrow> None
               | Some z \<Rightarrow> z)
      | Some p \<Rightarrow> Inr (map_of (getFields p) fname)
      | None \<Rightarrow>
          (case getOperationFields c operation of
             Inl e \<Rightarrow> Inl e
           | Inr None \<Rightarrow> Inl TypeError
           | Inr (Some operationFields) \<Rightarrow> Inr (map_of (obj_fields operationFields) fname)))"

text \<open>
  The composition of the walked children of a field (lines 198 to 238) into the members
  of the intersection (\<^verbatim>\<open>andOps\<close>) and the generated complex types, in the order of the
  pushes. \<open>count1\<close> is \<^verbatim>\<open>generatedTypeCount\<close> after the first group.
\<close>

definition objectBody :: "string \<Rightarrow> IChildren list \<Rightarrow> string" where
  "objectBody indentation fs =
     ''{'' @ ''\<newline>'' @ join ''\<newline>'' (map iface fs) @ ''\<newline>'' @ indentation @ ''}''"

definition composeChildren ::
    "ctx \<Rightarrow> string \<Rightarrow> string \<Rightarrow> IChildren list \<Rightarrow> string list \<times> IComplexTypeSignature list" where
  "composeChildren c fname indentation selections =
     (let nonFragments = filter (\<lambda>s. \<not> isFragment s) selections;
          fragments = filter isFragment selections;
          complexTypes0 = flattenComplexTypes selections;
          nonPartialNonFragments = filter (\<lambda>nf. \<not> isPartial nf) nonFragments;
          partialNonFragments = filter isPartial nonFragments;
          (andOps1, count1, complexTypes1) =
            (if nonFragments \<noteq> [] \<and> nonPartialNonFragments \<noteq> [] then
               (let builder = objectBody indentation nonPartialNonFragments;
                    newInterfaceName = generateSubTypeInterfaceName (options c) fname 0
                in ([if truthy newInterfaceName then template_string newInterfaceName else builder],
                    Suc 0,
                    complexTypes0 @
                      [\<lparr>ct_iface = builder, ct_isPartial = False, ct_name = newInterfaceName\<rparr>]))
             else ([], 0, complexTypes0));
          (andOps2, complexTypes2) =
            (if nonFragments \<noteq> [] \<and> partialNonFragments \<noteq> [] then
               (let builder = wrapPartial (options c) (objectBody indentation partialNonFragments);
                    newInterfaceName = generateSubTypeInterfaceName (options c) fname count1
                in (andOps1 @ [builder],
                    complexTypes1 @
                      [\<lparr>ct_iface = builder, ct_isPartial = True, ct_name = newInterfaceName\<rparr>]))
             else (andOps1, complexTypes1));
          andOps3 = (if fragments \<noteq> [] then andOps2 @ map (wrapPossiblePartial c) fragments
                     else andOps2)
      in (andOps3, complexTypes2))"

fun getChildSelections ::
    "ctx \<Rightarrow> string \<Rightarrow> selection \<Rightarrow> string \<Rightarrow> named_type option \<Rightarrow> bool \<Rightarrow> IChildren result"
and mapChildSelections ::
    "ctx \<Rightarrow> string \<Rightarrow> selection list \<Rightarrow> string \<Rightarrow> named_type option \<Rightarrow> bool \<Rightarrow> IChildren list result"
where
  "getChildSelections c operation (Field alias fname directives selectionSet) indentation parent isUndefined =
     (case lookupField c operation parent fname of
        Inl e \<Rightarrow> ([], Inl e)
      | Inr field \<Rightarrow>
          (let selectionName = (case alias of Some a \<Rightarrow> a | None \<Rightarrow> fname);
               (log1, isUndefined1) =
                 (if isUndefined then ([], True) else isUndefinedFromDirective directives)
           in case selectionSet of
                None \<Rightarrow>
                  (case field of
                     None \<Rightarrow> (log1, Inl TypeError)
                   | Some ftype \<Rightarrow>
                       (log1,
                        Inr \<lparr>iface = formatInput (options c) (indentation @ selectionName) isUndefined1
                                       (convertToType c ftype False None),
                             isFragment = False, isPartial = False, complexTypes = []\<rparr>))
              | Some sels \<Rightarrow>
                  (case field of
                     None \<Rightarrow>
                       (log1 @ [ConsoleLog (Field alias fname directives selectionSet)], Inl TypeError)
                   | Some ftype \<Rightarrow>
                       (let newParent =
                              (case getNamedType (parsedSchema c) ftype of
                                 None \<Rightarrow> None
                               | Some fieldType \<Rightarrow>
                                   if isCompositeType fieldType then Some fieldType else None)
                        in case mapChildSelections c operation sels (indentation @ ''  '') newParent False of
                             (log2, Inl e) \<Rightarrow> (log1 @ log2, Inl e)
                           | (log2, Inr selections) \<Rightarrow>
                               (let (andOps, cts) = composeChildren c fname indentation selections;
                                    childType = join '' & '' andOps
                                in (log1 @ log2,
                                    Inr \<lparr>iface = formatInput (options c) (indentation @ selectionName)
                                                   isUndefined1 (convertToType c ftype False (Some childType)),
                                         isFragment = False, isPartial = False,
                                         complexTypes = cts\<rparr>))))))"
| "getChildSelections c operation (FragmentSpread fname directives) indentation parent isUndefined =
     (let (log1, p) = isUndefinedFromDirective directives
      in (log1,
          Inr \<lparr>iface = generateFragmentName (options c) fname, isFragment = True, isPartial = p,
               complexTypes = []\<rparr>))"
| "getChildSelections c operation (InlineFragment typeCondition directives sels) indentation parent isUndefined =
     (let anon = (typeCondition = None);
          parent1 = (case typeCondition of
                       None \<Rightarrow> parent
                     | Some typeName \<Rightarrow> getType (parsedSchema c) typeName)
      in case mapChildSelections c operation sels indentation parent1 (\<not> anon) of
           (log1, Inl e) \<Rightarrow> (log1, Inl e)
         | (log1, Inr selections) \<Rightarrow>
             (let joinSelections = join ''\<newline>'' (map iface selections);
                  (log2, p) = isUndefinedFromDirective directives
              in (log1 @ log2,
                  Inr \<lparr>iface = joinSelections, isFragment = False, isPartial = p,
                       complexTypes = []\<rparr>)))"
| "getChildSelections c operation (OtherSelection k) indentation parent isUndefined =
     ([], Inl UnsupportedSelectionNode)"
| "mapChildSelections c operation [] indentation parent isUndefined = ([], Inr [])"
| "mapChildSelections c operation (sel # rest) indentation parent isUndefined =
     (case getChildSelections c operation sel indentation parent isUndefined of
        (log1, Inl e) \<Rightarrow> (log1, Inl e)
      | (log1, Inr r) \<Rightarrow>
          (case mapChildSelections c operation rest indentation parent isUndefined of
             (log2, Inl e) \<Rightarrow> (log1 @ log2, Inl e)
           | (log2, Inr rs) \<Rightarrow> (log1 @ log2, Inr (r # rs))))"

subsection \<open>Assembler\<close>

definition getVariables :: "ctx \<Rightarrow> VariableDefinitionNode list \<Rightarrow> string list" where
  "getVariables c vs =
     map (\<lambda>v. let optional = (case var_type v of NonNullType _ \<Rightarrow> False | _ \<Rightarrow> True);
                   type = convertVariable c (var_type v) False None
               in formatInput (options c) (var_name v) optional type) vs"

definition variablesToInterface :: "ctx \<Rightarrow> string \<Rightarrow> VariableDefinitionNode list option \<Rightarrow> string" where
  "variablesToInterface c opName vars =
     (case vars of
        None \<Rightarrow> []
      | Some vs \<Rightarrow> if vs = [] then [] else formatVariableInterface (options c) opName (getVariables c vs))"

definition renderComplexType :: "IComplexTypeSignature \<Rightarrow> string" where
  "renderComplexType subtype =
     (if ct_isPartial subtype
      then ''export type '' @ template_string (ct_name subtype) @ '' = '' @ ct_iface subtype @ '';''
      else ''export interface '' @ template_string (ct_name subtype) @ '' '' @ ct_iface subtype)"

definition buildAdditionalTypes :: "IChildren list \<Rightarrow> string list" where
  "buildAdditionalTypes children = map renderComplexType (flattenComplexTypes children)"

text \<open>The body of the \<^verbatim>\<open>definitions.map\<close> callback at the end of \<^verbatim>\<open>doIt\<close>.\<close>

definition convertDefinition :: "ctx \<Rightarrow> DefinitionNode \<Rightarrow> output_definition result" where
  "convertDefinition c def =
     (let ifaceName = buildRootInterfaceName (options c) def (generateQueryName (options c))
                        (generateFragmentName (options c))
      in case def of
           OperationDefinition operation opname variableDefinitions sels \<Rightarrow>
             (let variableInterface = variablesToInterface c ifaceName variableDefinitions
              in case mapChildSelections c operation sels ''  '' None False of
                   (log1, Inl e) \<Rightarrow> (log1, Inl e)
                 | (log1, Inr ret) \<Rightarrow>
                     (log1,
                      Inr \<lparr>variables = variableInterface,
                           interface = formatInterface (options c) ifaceName (map iface ret),
                           additionalTypes = buildAdditionalTypes ret\<rparr>))
         | FragmentDefinition fname onType sels \<Rightarrow>
             (let foundType = getType (parsedSchema c) onType
              in case mapChildSelections c ''query'' sels ''  '' foundType False of
                   (log1, Inl e) \<Rightarrow> (log1, Inl e)
                 | (log1, Inr ret) \<Rightarrow>
                     (log1,
                      Inr \<lparr>variables = [],
                           interface = formatFragmentInterface (options c) ifaceName
                                         (map iface (filter (\<lambda>x. \<not> isFragment x) ret))
                                         (map iface (filter isFragment ret)),
                           additionalTypes = buildAdditionalTypes ret\<rparr>))
         | OtherDefinition k \<Rightarrow> ([], Inl (UnsupportedDefinition k)))"

text \<open>
  \<^verbatim>\<open>doIt\<close> after merging and parsing: the definitions are converted in order, and the
  first throw ends the run with no output record at all.
\<close>

fun doIt :: "ctx \<Rightarrow> DefinitionNode list \<Rightarrow> output_definition list result" where
  "doIt c [] = ([], Inr [])"
| "doIt c (d # ds) =
     (case convertDefinition c d of
        (log1, Inl e) \<Rightarrow> (log1, Inl e)
      | (log1, Inr r) \<Rightarrow>
          (case doIt c ds of
             (log2, Inl e) \<Rightarrow> (log1 @ log2, Inl e)
           | (log2, Inr rs) \<Rightarrow> (log1 @ log2, Inr (r # rs))))"

subsection \<open>A concrete schema and formatting strategy for evaluating examples\<close>

text \<open>
  The examples below run the compiler on this schema:
  \<^verbatim>\<open>
  type Query { user: User, search: SearchResult }
  type User { id: ID!, name: String, friend: User, role: Role, tags: [String!] }
  type Post { title: String!, author: User }
  enum Role { ADMIN MEMBER }
  union SearchResult = Post | User
  \<close>
  It has no mutation and no subscription type.
\<close>

definition userType :: GraphQLObjectType where
  "userType = GraphQLObjectType ''User''
     [(''id'', NonNullOf (Named ''ID'')), (''name'', Named ''String''),
      (''friend'', Named ''User''), (''role'', Named ''Role''),
      (''tags'', ListOf (NonNullOf (Named ''String'')))]"

definition postType :: GraphQLObjectType where
  "postType = GraphQLObjectType ''Post''
     [(''title'', NonNullOf (Named ''String'')), (''author'', Named ''User'')]"

definition queryRoot :: GraphQLObjectType where
  "queryRoot = GraphQLObjectType ''Query''
     [(''user'', Named ''User''), (''search'', Named ''SearchResult'')]"

definition exampleSchema :: schema where
  "exampleSchema =
     \<lparr>types = [(''Query'', ObjectT queryRoot), (''User'', ObjectT userType),
               (''Post'', ObjectT postType), (''Role'', EnumT ''Role'' [''ADMIN'', ''MEMBER'']),
               (''SearchResult'', UnionT ''SearchResult'' [postType, userType]),
               (''ID'', ScalarT ''ID''), (''String'', ScalarT ''String'')],
      queryType = Some queryRoot, mutationType = None, subscriptionType = None\<rparr>"

definition exampleTypeMap :: ITypeMap where
  "exampleTypeMap =
     \<lparr>tm_DEFAULT = ''any'',
      tm_entries = map_of [(''ID'', ''string''), (''String'', ''string''), (''Int'', ''number''),
                           (''Boolean'', ''boolean'')]\<rparr>"

definition exampleRootName :: "DefinitionNode \<Rightarrow> string" where
  "exampleRootName def =
     (case def of
        OperationDefinition operation opname _ _ \<Rightarrow> (case opname of Some n \<Rightarrow> n | None \<Rightarrow> ''Anonymous'')
      | FragmentDefinition n _ _ \<Rightarrow> n
      | OtherDefinition k \<Rightarrow> k)"

definition exampleOptions :: IOptions where
  "exampleOptions =
     \<lparr>buildRootInterfaceName = (\<lambda>def q f. q def),
      formatFragmentInterface = (\<lambda>n fs exts. n @ '' extends '' @ join '', '' exts @ '' {'' @ join '' '' fs @ ''}''),
      formatInterface = (\<lambda>n fs. n @ '' {'' @ join '' '' fs @ ''}''),
      formatVariableInterface = (\<lambda>n vs. n @ ''Input {'' @ join '' '' vs @ ''}''),
      wrapList = (\<lambda>t. ''Array<'' @ t @ ''>''),
      wrapPartial = (\<lambda>t. ''Partial<'' @ t @ ''>''),
      generateSubTypeInterfaceName = (\<lambda>n k. Some (''SelectionOn'' @ n)),
      printType = (\<lambda>t nn. if nn then t else t @ '' | null''),
      formatInput = (\<lambda>n opt t. n @ (if opt then ''?'' else []) @ '': '' @ t @ '';''),
      generateFragmentName = (\<lambda>n. ''IFragment'' @ n),
      generateQueryName = exampleRootName\<rparr>"

definition exampleCtx :: ctx where
  "exampleCtx = \<lparr>TypeMap = exampleTypeMap, options = exampleOptions, parsedSchema = exampleSchema\<rparr>"

text \<open>
  A directive list carries a conditional directive when \<^verbatim>\<open>include\<close> or \<^verbatim>\<open>skip\<close> is
  among its names.
\<close>

abbreviation conditional :: "DirectiveNode list option \<Rightarrow> bool" where
  "conditional directives \<equiv>
     (\<exists>ds. directives = Some ds \<and> (''include'' \<in> set ds \<or> ''skip'' \<in> set ds))"

text \<open>
  The result record of a field selection whose field was found with type \<open>ft\<close>: one
  line, never a fragment reference, never marked partial.
\<close>

abbreviation fieldLine ::
    "ctx \<Rightarrow> string \<Rightarrow> string option \<Rightarrow> string \<Rightarrow> bool \<Rightarrow> gql_type \<Rightarrow> string option \<Rightarrow>
     IComplexTypeSignature list \<Rightarrow> IChildren" where
  "fieldLine c indentation alias fname opt ft childType cts \<equiv>
     \<lparr>iface = formatInput (options c)
                (indentation @ (case alias of Some a \<Rightarrow> a | None \<Rightarrow> fname)) opt
                (convertToType c ft False childType),
      isFragment = False, isPartial = False, complexTypes = cts\<rparr>"

text \<open>The fragment spreads among the selections of a selection set, in document order.\<close>

fun spreadsOf :: "selection list \<Rightarrow> (string \<times> DirectiveNode list option) list" where
  "spreadsOf [] = []"
| "spreadsOf (FragmentSpread n d # ss) = (n, d) # spreadsOf ss"
| "spreadsOf (s # ss) = spreadsOf ss"

text \<open>
  A second configuration: the type map has an entry under the name of the composite type
  \<^verbatim>\<open>User\<close> and an entry with an empty token, and sub-type naming returns \<^verbatim>\<open>null\<close>, so
  that bodies stay inline.
\<close>

definition collidingCtx :: ctx where
  "collidingCtx =
     \<lparr>TypeMap = \<lparr>tm_DEFAULT = ''any'',
                  tm_entries = map_of [(''ID'', ''string''), (''String'', ''string''), (''User'', ''MyUser''),
                                       (''Blank'', [])]\<rparr>,
      options = exampleOptions\<lparr>generateSubTypeInterfaceName := (\<lambda>n k. None)\<rparr>,
      parsedSchema = exampleSchema\<rparr>"

section \<open>Properties\<close>

subsection \<open>Shared lemmas\<close>

lemmas walker_defs =
  lookupField_def getOperationFields_def isUndefinedFromDirective_def UndefinedDirectives_def
  getNamedType_def getType_def composeChildren_def flattenComplexTypes_def wrapPossiblePartial_def
  objectBody_def handleRegularType_def handleEnum_def tm_get_def objectPrototype_def Let_def

lemmas example_defs =
  exampleCtx_def exampleSchema_def exampleTypeMap_def exampleOptions_def exampleRootName_def
  queryRoot_def userType_def postType_def

lemma directive_flag: "snd (isUndefinedFromDirective directives) = conditional directives"
  by (cases directives)
     (auto simp: isUndefinedFromDirective_def UndefinedDirectives_def Let_def list_ex_iff)

lemma directive_log:
  "fst (isUndefinedFromDirective directives) =
     (case directives of
        None \<Rightarrow> []
      | Some ds \<Rightarrow>
          (if \<forall>d\<in>set ds. d = ''include'' \<or> d = ''skip'' then []
           else ConsoleError ''Found some unknown directives:'' #
                  map ConsoleError (filter (\<lambda>d. d \<noteq> ''include'' \<and> d \<noteq> ''skip'') ds)))"
  by (cases directives)
     (auto simp: isUndefinedFromDirective_def UndefinedDirectives_def Let_def filter_empty_conv
           intro: filter_cong)

lemma field_flag:
  "(if u then ([], True) else isUndefinedFromDirective d) = (l, b) \<Longrightarrow> b = (u \<or> conditional d)"
  using directive_flag[of d] by (auto split: if_splits)

lemma field_result:
  assumes "getChildSelections c operation (Field alias fname directives selectionSet)
             indentation parent u = (l, Inr r)"
  shows "\<exists>ftype childType. lookupField c operation parent fname = Inr (Some ftype) \<and>
           iface r = formatInput (options c)
                       (indentation @ (case alias of Some a \<Rightarrow> a | None \<Rightarrow> fname))
                       (u \<or> conditional directives) (convertToType c ftype False childType) \<and>
           \<not> isFragment r \<and> \<not> isPartial r"
  using assms
  by (auto simp: Let_def split: sum.splits option.splits prod.splits dest!: field_flag)


lemma find_first_declaring:
  "i < length ts \<Longrightarrow> g (ts ! i) = Some ft \<Longrightarrow> \<forall>j<i. g (ts ! j) = None \<Longrightarrow>
     find (\<lambda>z. z \<noteq> None) (map g ts) = Some (Some ft)"
proof (induction ts arbitrary: i)
  case Nil
  then show ?case by simp
next
  case (Cons t ts)
  show ?case
  proof (cases i)
    case 0
    with Cons.prems show ?thesis by simp
  next
    case (Suc k)
    with Cons.prems have "g t = None" by auto
    moreover have "find (\<lambda>z. z \<noteq> None) (map g ts) = Some (Some ft)"
      using Cons.prems Suc by (intro Cons.IH[of k]) auto
    ultimately show ?thesis by simp
  qed
qed

lemma find_none_declaring:
  "\<forall>t\<in>set ts. g t = None \<Longrightarrow> find (\<lambda>z. z \<noteq> None) (map g ts) = None"
  by (induction ts) auto

lemma lookupField_union_first:
  assumes "i < length ts" "map_of (obj_fields (ts ! i)) fname = Some ft"
    "\<forall>j<i. map_of (obj_fields (ts ! j)) fname = None"
  shows "lookupField c operation (Some (UnionT n ts)) fname = Inr (Some ft)"
  using find_first_declaring[where g="\<lambda>t. map_of (obj_fields t) fname", OF assms]
  by (simp add: lookupField_def)

lemma lookupField_union_none:
  assumes "\<forall>t\<in>set ts. map_of (obj_fields t) fname = None"
  shows "lookupField c operation (Some (UnionT n ts)) fname = Inr None"
  using find_none_declaring[where g="\<lambda>t. map_of (obj_fields t) fname", OF assms]
  by (simp add: lookupField_def)

subsection \<open>Field resolution\<close>

lemma field_leaf_exact:
  assumes "lookupField c operation parent fname = Inr (Some ft)"
  shows "getChildSelections c operation (Field alias fname directives None) indentation parent u
           = ((if u then [] else fst (isUndefinedFromDirective directives)),
              Inr (fieldLine c indentation alias fname (u \<or> conditional directives) ft None []))"
  using assms directive_flag[of directives]
  by (cases "isUndefinedFromDirective directives") (auto simp: Let_def)

lemma field_nested_exact:
  assumes "lookupField c operation parent fname = Inr (Some ft)"
  shows "getChildSelections c operation (Field alias fname directives (Some sels)) indentation parent u
           = (case mapChildSelections c operation sels (indentation @ ''  '')
                     (case getNamedType (parsedSchema c) ft of
                        None \<Rightarrow> None
                      | Some fieldType \<Rightarrow> if isCompositeType fieldType then Some fieldType else None)
                     False of
                (log2, Inl e) \<Rightarrow>
                  ((if u then [] else fst (isUndefinedFromDirective directives)) @ log2, Inl e)
              | (log2, Inr rs) \<Rightarrow>
                  ((if u then [] else fst (isUndefinedFromDirective directives)) @ log2,
                   Inr (fieldLine c indentation alias fname (u \<or> conditional directives) ft
                          (Some (join '' & '' (fst (composeChildren c fname indentation rs))))
                          (snd (composeChildren c fname indentation rs)))))"
  using assms directive_flag[of directives]
  by (cases "isUndefinedFromDirective directives")
     (auto simp: Let_def split: prod.splits sum.splits option.splits)

text \<open>
  C6. Under a union parent a field selection resolves to the field of the first member
  type, in declaration order, that declares a field of that name; under an object or
  interface parent it resolves through that parent's own field map; with no parent it
  resolves against the root type of the operation kind. The walker returns the line of
  the field found this way: the type text of the line is that of the found field, and a
  nested selection set is walked against the named type of the found field.
\<close>

theorem field_resolution:
  "(i < length ts \<and> map_of (obj_fields (ts ! i)) fname = Some ft \<and>
      (\<forall>j<i. map_of (obj_fields (ts ! j)) fname = None)
      \<longrightarrow> lookupField c operation (Some (UnionT n ts)) fname = Inr (Some ft))
   \<and> lookupField c operation (Some (ObjectT t)) fname = Inr (map_of (obj_fields t) fname)
   \<and> lookupField c operation (Some (InterfaceT n fs)) fname = Inr (map_of fs fname)
   \<and> lookupField c ''query'' None fname =
       (case queryType (parsedSchema c) of
          None \<Rightarrow> Inl TypeError | Some root \<Rightarrow> Inr (map_of (obj_fields root) fname))
   \<and> lookupField c ''mutation'' None fname =
       (case mutationType (parsedSchema c) of
          None \<Rightarrow> Inl TypeError | Some root \<Rightarrow> Inr (map_of (obj_fields root) fname))
   \<and> lookupField c ''subscription'' None fname =
       (case subscriptionType (parsedSchema c) of
          None \<Rightarrow> Inl TypeError | Some root \<Rightarrow> Inr (map_of (obj_fields root) fname))
   \<and> (getChildSelections c operation (Field alias fname directives selectionSet)
         indentation parent u = (l, Inr r)
      \<longrightarrow> (\<exists>ftype childType. lookupField c operation parent fname = Inr (Some ftype) \<and>
             iface r = formatInput (options c)
                         (indentation @ (case alias of Some a \<Rightarrow> a | None \<Rightarrow> fname))
                         (u \<or> conditional directives) (convertToType c ftype False childType)))
   \<and> (i < length ts \<and> map_of (obj_fields (ts ! i)) fname = Some ft \<and>
      (\<forall>j<i. map_of (obj_fields (ts ! j)) fname = None)
      \<longrightarrow> getChildSelections c operation (Field alias fname directives None) indentation
            (Some (UnionT n ts)) u
          = ((if u then [] else fst (isUndefinedFromDirective directives)),
             Inr (fieldLine c indentation alias fname (u \<or> conditional directives) ft None [])))
   \<and> (map_of (obj_fields t) fname = Some ft
      \<longrightarrow> getChildSelections c operation (Field alias fname directives None) indentation
            (Some (ObjectT t)) u
          = ((if u then [] else fst (isUndefinedFromDirective directives)),
             Inr (fieldLine c indentation alias fname (u \<or> conditional directives) ft None [])))
   \<and> (map_of fs fname = Some ft
      \<longrightarrow> getChildSelections c operation (Field alias fname directives None) indentation
            (Some (InterfaceT n fs)) u
          = ((if u then [] else fst (isUndefinedFromDirective directives)),
             Inr (fieldLine c indentation alias fname (u \<or> conditional directives) ft None [])))
   \<and> (getOperationFields c operation = Inr (Some root) \<and> map_of (obj_fields root) fname = Some ft
      \<longrightarrow> getChildSelections c operation (Field alias fname directives None) indentation None u
          = ((if u then [] else fst (isUndefinedFromDirective directives)),
             Inr (fieldLine c indentation alias fname (u \<or> conditional directives) ft None [])))
   \<and> (lookupField c operation parent fname = Inr (Some ft)
      \<longrightarrow> getChildSelections c operation (Field alias fname directives (Some sels)) indentation
            parent u
          = (case mapChildSelections c operation sels (indentation @ ''  '')
                    (case getNamedType (parsedSchema c) ft of
                       None \<Rightarrow> None
                     | Some fieldType \<Rightarrow> if isCompositeType fieldType then Some fieldType else None)
                    False of
               (log2, Inl e) \<Rightarrow>
                 ((if u then [] else fst (isUndefinedFromDirective directives)) @ log2, Inl e)
             | (log2, Inr rs) \<Rightarrow>
                 ((if u then [] else fst (isUndefinedFromDirective directives)) @ log2,
                  Inr (fieldLine c indentation alias fname (u \<or> conditional directives) ft
                         (Some (join '' & '' (fst (composeChildren c fname indentation rs))))
                         (snd (composeChildren c fname indentation rs))))))"
proof -
  have root: "lookupField c ''query'' None fname =
       (case queryType (parsedSchema c) of
          None \<Rightarrow> Inl TypeError | Some root \<Rightarrow> Inr (map_of (obj_fields root) fname))"
    "lookupField c ''mutation'' None fname =
       (case mutationType (parsedSchema c) of
          None \<Rightarrow> Inl TypeError | Some root \<Rightarrow> Inr (map_of (obj_fields root) fname))"
    "lookupField c ''subscription'' None fname =
       (case subscriptionType (parsedSchema c) of
          None \<Rightarrow> Inl TypeError | Some root \<Rightarrow> Inr (map_of (obj_fields root) fname))"
    by (simp_all add: lookupField_def getOperationFields_def split: option.splits)
  have comp: "lookupField c operation (Some (ObjectT t)) fname = Inr (map_of (obj_fields t) fname)"
    "lookupField c operation (Some (InterfaceT n fs)) fname = Inr (map_of fs fname)"
    by (simp_all add: lookupField_def)
  have un: "i < length ts \<and> map_of (obj_fields (ts ! i)) fname = Some ft \<and>
      (\<forall>j<i. map_of (obj_fields (ts ! j)) fname = None)
      \<Longrightarrow> lookupField c operation (Some (UnionT n ts)) fname = Inr (Some ft)"
    using lookupField_union_first[of i ts fname ft c operation n] by blast
  have noparent: "getOperationFields c operation = Inr (Some root) \<and>
      map_of (obj_fields root) fname = Some ft
      \<Longrightarrow> lookupField c operation None fname = Inr (Some ft)"
    by (simp add: lookupField_def)
  have old: "getChildSelections c operation (Field alias fname directives selectionSet)
         indentation parent u = (l, Inr r)
      \<Longrightarrow> (\<exists>ftype childType. lookupField c operation parent fname = Inr (Some ftype) \<and>
             iface r = formatInput (options c)
                         (indentation @ (case alias of Some a \<Rightarrow> a | None \<Rightarrow> fname))
                         (u \<or> conditional directives) (convertToType c ftype False childType))"
    using field_result[of c operation "alias" fname directives selectionSet indentation parent u l r]
    by blast
  have w1: "i < length ts \<and> map_of (obj_fields (ts ! i)) fname = Some ft \<and>
      (\<forall>j<i. map_of (obj_fields (ts ! j)) fname = None)
      \<Longrightarrow> getChildSelections c operation (Field alias fname directives None) indentation
            (Some (UnionT n ts)) u
          = ((if u then [] else fst (isUndefinedFromDirective directives)),
             Inr (fieldLine c indentation alias fname (u \<or> conditional directives) ft None []))"
    by (rule field_leaf_exact) (rule un)
  have w2: "map_of (obj_fields t) fname = Some ft
      \<Longrightarrow> getChildSelections c operation (Field alias fname directives None) indentation
            (Some (ObjectT t)) u
          = ((if u then [] else fst (isUndefinedFromDirective directives)),
             Inr (fieldLine c indentation alias fname (u \<or> conditional directives) ft None []))"
    by (rule field_leaf_exact) (simp add: comp)
  have w3: "map_of fs fname = Some ft
      \<Longrightarrow> getChildSelections c operation (Field alias fname directives None) indentation
            (Some (InterfaceT n fs)) u
          = ((if u then [] else fst (isUndefinedFromDirective directives)),
             Inr (fieldLine c indentation alias fname (u \<or> conditional directives) ft None []))"
    by (rule field_leaf_exact) (simp add: comp)
  have w4: "getOperationFields c operation = Inr (Some root) \<and>
      map_of (obj_fields root) fname = Some ft
      \<Longrightarrow> getChildSelections c operation (Field alias fname directives None) indentation None u
          = ((if u then [] else fst (isUndefinedFromDirective directives)),
             Inr (fieldLine c indentation alias fname (u \<or> conditional directives) ft None []))"
    by (rule field_leaf_exact) (rule noparent)
  note w5 = field_nested_exact[of c operation parent fname ft "alias" directives sels indentation u]
  show ?thesis
    apply (intro conjI impI)
    subgoal by (rule un)
    subgoal by (rule comp)
    subgoal by (rule comp)
    subgoal by (rule root)
    subgoal by (rule root)
    subgoal by (rule root)
    subgoal by (rule old)
    subgoal by (rule w1)
    subgoal by (rule w2)
    subgoal by (rule w3)
    subgoal by (rule w4)
    subgoal by (rule w5)
    done
qed

theorem field_resolution_witness:
  "getChildSelections exampleCtx ''query'' (Field None ''x'' None None) ''  ''
       (Some (UnionT ''U'' [GraphQLObjectType ''A'' [(''x'', NonNullOf (Named ''Int''))],
                            GraphQLObjectType ''B'' [(''x'', Named ''String''), (''y'', Named ''ID'')]]))
       False
     = ([], Inr \<lparr>iface = ''  x: number;'', isFragment = False, isPartial = False, complexTypes = []\<rparr>)
   \<and> getChildSelections exampleCtx ''query'' (Field None ''y'' None None) ''  ''
       (Some (UnionT ''U'' [GraphQLObjectType ''A'' [(''x'', NonNullOf (Named ''Int''))],
                            GraphQLObjectType ''B'' [(''x'', Named ''String''), (''y'', Named ''ID'')]]))
       False
     = ([], Inr \<lparr>iface = ''  y: string | null;'', isFragment = False, isPartial = False,
                  complexTypes = []\<rparr>)
   \<and> getChildSelections exampleCtx ''query'' (Field None ''name'' None None) ''  ''
       (Some (ObjectT userType)) False
     = ([], Inr \<lparr>iface = ''  name: string | null;'', isFragment = False, isPartial = False,
                  complexTypes = []\<rparr>)
   \<and> getChildSelections exampleCtx ''query'' (Field None ''user'' None None) ''  '' None False
     = ([], Inr \<lparr>iface = ''  user: any | null;'', isFragment = False, isPartial = False,
                  complexTypes = []\<rparr>)
   \<and> lookupField exampleCtx ''mutation'' None ''user'' = Inl TypeError"
proof -
  let ?ts = "[GraphQLObjectType ''A'' [(''x'', NonNullOf (Named ''Int''))],
              GraphQLObjectType ''B'' [(''x'', Named ''String''), (''y'', Named ''ID'')]]"
  note t = field_resolution[where c=exampleCtx and indentation="''  ''" and directives=None
      and u=False, of _ _ _ _ _ _ _ _ None]
  have a: "(0::nat) < length ?ts \<and> map_of (obj_fields (?ts ! 0)) ''x'' = Some (NonNullOf (Named ''Int'')) \<and>
           (\<forall>j<(0::nat). map_of (obj_fields (?ts ! j)) ''x'' = None)"
    by simp
  have b: "(1::nat) < length ?ts \<and> map_of (obj_fields (?ts ! 1)) ''y'' = Some (Named ''ID'') \<and>
           (\<forall>j<(1::nat). map_of (obj_fields (?ts ! j)) ''y'' = None)"
    by simp
  have o: "map_of (obj_fields userType) ''name'' = Some (Named ''String'')"
    by (simp add: userType_def)
  have q: "getOperationFields exampleCtx ''query'' = Inr (Some queryRoot) \<and>
           map_of (obj_fields queryRoot) ''user'' = Some (Named ''User'')"
    by (simp add: getOperationFields_def example_defs)
  have m: "mutationType (parsedSchema exampleCtx) = None"
    by (simp add: example_defs)
  have d: "fst (isUndefinedFromDirective None) = []" "\<not> conditional None"
    by (simp_all add: isUndefinedFromDirective_def)
  have "getChildSelections exampleCtx ''query'' (Field None ''x'' None None) ''  ''
          (Some (UnionT ''U'' ?ts)) False
        = ((if False then [] else fst (isUndefinedFromDirective None)),
           Inr (fieldLine exampleCtx ''  '' None ''x'' (False \<or> conditional None)
                  (NonNullOf (Named ''Int'')) None []))"
    by (rule t[where i=0 and ts="?ts" and fname="''x''" and ft="NonNullOf (Named ''Int'')"
                and operation="''query''" and n="''U''", THEN conjunct2, THEN conjunct2, THEN conjunct2, THEN conjunct2, THEN conjunct2, THEN conjunct2, THEN conjunct2, THEN conjunct1, THEN mp, OF a])
  also have "\<dots> = ([], Inr \<lparr>iface = ''  x: number;'', isFragment = False, isPartial = False,
                            complexTypes = []\<rparr>)"
    by (simp add: d walker_defs example_defs)
  finally have r1: "getChildSelections exampleCtx ''query'' (Field None ''x'' None None) ''  ''
          (Some (UnionT ''U'' ?ts)) False
        = ([], Inr \<lparr>iface = ''  x: number;'', isFragment = False, isPartial = False,
                     complexTypes = []\<rparr>)" .
  have "getChildSelections exampleCtx ''query'' (Field None ''y'' None None) ''  ''
          (Some (UnionT ''U'' ?ts)) False
        = ((if False then [] else fst (isUndefinedFromDirective None)),
           Inr (fieldLine exampleCtx ''  '' None ''y'' (False \<or> conditional None)
                  (Named ''ID'') None []))"
    by (rule t[where i=1 and ts="?ts" and fname="''y''" and ft="Named ''ID''"
                and operation="''query''" and n="''U''", THEN conjunct2, THEN conjunct2, THEN conjunct2, THEN conjunct2, THEN conjunct2, THEN conjunct2, THEN conjunct2, THEN conjunct1, THEN mp, OF b])
  also have "\<dots> = ([], Inr \<lparr>iface = ''  y: string | null;'', isFragment = False, isPartial = False,
                            complexTypes = []\<rparr>)"
    by (simp add: d walker_defs example_defs)
  finally have r2: "getChildSelections exampleCtx ''query'' (Field None ''y'' None None) ''  ''
          (Some (UnionT ''U'' ?ts)) False
        = ([], Inr \<lparr>iface = ''  y: string | null;'', isFragment = False, isPartial = False,
                     complexTypes = []\<rparr>)" .
  have "getChildSelections exampleCtx ''query'' (Field None ''name'' None None) ''  ''
          (Some (ObjectT userType)) False
        = ((if False then [] else fst (isUndefinedFromDirective None)),
           Inr (fieldLine exampleCtx ''  '' None ''name'' (False \<or> conditional None)
                  (Named ''String'') None []))"
    by (rule t[where t=userType and fname="''name''" and ft="Named ''String''"
                and operation="''query''", THEN conjunct2, THEN conjunct2, THEN conjunct2, THEN conjunct2, THEN conjunct2, THEN conjunct2, THEN conjunct2, THEN conjunct2, THEN conjunct1, THEN mp, OF o])
  also have "\<dots> = ([], Inr \<lparr>iface = ''  name: string | null;'', isFragment = False,
                            isPartial = False, complexTypes = []\<rparr>)"
    by (simp add: d walker_defs example_defs)
  finally have r3: "getChildSelections exampleCtx ''query'' (Field None ''name'' None None) ''  ''
          (Some (ObjectT userType)) False
        = ([], Inr \<lparr>iface = ''  name: string | null;'', isFragment = False, isPartial = False,
                     complexTypes = []\<rparr>)" .
  have "getChildSelections exampleCtx ''query'' (Field None ''user'' None None) ''  '' None False
        = ((if False then [] else fst (isUndefinedFromDirective None)),
           Inr (fieldLine exampleCtx ''  '' None ''user'' (False \<or> conditional None)
                  (Named ''User'') None []))"
    by (rule t[where root=queryRoot and fname="''user''" and ft="Named ''User''"
                and operation="''query''", THEN conjunct2, THEN conjunct2, THEN conjunct2, THEN conjunct2, THEN conjunct2, THEN conjunct2, THEN conjunct2, THEN conjunct2, THEN conjunct2, THEN conjunct2, THEN conjunct1, THEN mp, OF q])
  also have "\<dots> = ([], Inr \<lparr>iface = ''  user: any | null;'', isFragment = False,
                            isPartial = False, complexTypes = []\<rparr>)"
    by (simp add: d walker_defs example_defs)
  finally have r4: "getChildSelections exampleCtx ''query'' (Field None ''user'' None None) ''  ''
          None False
        = ([], Inr \<lparr>iface = ''  user: any | null;'', isFragment = False, isPartial = False,
                     complexTypes = []\<rparr>)" .
  have r5: "lookupField exampleCtx ''mutation'' None ''user'' = Inl TypeError"
    using m t[where fname="''user''", THEN conjunct2, THEN conjunct2, THEN conjunct2, THEN conjunct2, THEN conjunct1] by simp
  from r1 r2 r3 r4 r5 show ?thesis by blast
qed

subsection \<open>More shared lemmas\<close>

lemma spread_result:
  "getChildSelections c operation (FragmentSpread fname directives) indentation parent u =
     (fst (isUndefinedFromDirective directives),
      Inr \<lparr>iface = generateFragmentName (options c) fname, isFragment = True,
           isPartial = conditional directives, complexTypes = []\<rparr>)"
  using directive_flag[of directives]
  by (cases "isUndefinedFromDirective directives") simp

lemma inline_result:
  "getChildSelections c operation (InlineFragment tc directives sels) indentation parent u = (l, Inr r)
     \<Longrightarrow> \<not> isFragment r \<and> isPartial r = conditional directives \<and> complexTypes r = []"
  using directive_flag[of directives]
  by (auto simp: Let_def split: prod.splits sum.splits)

lemma spread_results:
  "mapChildSelections c operation sels indentation parent u = (l, Inr rs) \<Longrightarrow>
     filter isFragment rs =
       map (\<lambda>(n, d). \<lparr>iface = generateFragmentName (options c) n, isFragment = True,
                      isPartial = conditional d, complexTypes = []\<rparr>) (spreadsOf sels)"
proof (induction sels arbitrary: l rs)
  case Nil
  then show ?case by simp
next
  case (Cons s sels)
  from Cons.prems obtain l1 r l2 rs' where
    s: "getChildSelections c operation s indentation parent u = (l1, Inr r)" and
    m: "mapChildSelections c operation sels indentation parent u = (l2, Inr rs')" and
    rs: "rs = r # rs'"
    by (auto split: prod.splits sum.splits)
  note IH = Cons.IH[OF m]
  show ?case
  proof (cases s)
    case (Field a n d ss)
    with s have "\<not> isFragment r" using field_result by blast
    with IH rs Field show ?thesis by simp
  next
    case (FragmentSpread n d)
    with s spread_result[of c operation n d indentation parent u] IH rs show ?thesis by simp
  next
    case (InlineFragment tc d ss)
    with s have "\<not> isFragment r" using inline_result by blast
    with IH rs InlineFragment show ?thesis by simp
  next
    case (OtherSelection k)
    with s show ?thesis by simp
  qed
qed

lemma compose_fragments:
  "fst (composeChildren c fname indentation rs) =
     fst (composeChildren c fname indentation (filter (\<lambda>s. \<not> isFragment s) rs)) @
     map (wrapPossiblePartial c) (filter isFragment rs)"
  by (simp add: composeChildren_def Let_def split: prod.splits)

lemma field_result_nested:
  assumes "getChildSelections c operation (Field alias fname directives (Some sels))
             indentation parent u = (l, Inr r)"
  shows "\<exists>ftype np l' rs. lookupField c operation parent fname = Inr (Some ftype) \<and>
           mapChildSelections c operation sels (indentation @ ''  '') np False = (l', Inr rs) \<and>
           iface r = formatInput (options c)
                       (indentation @ (case alias of Some a \<Rightarrow> a | None \<Rightarrow> fname))
                       (u \<or> conditional directives)
                       (convertToType c ftype False
                          (Some (join '' & '' (fst (composeChildren c fname indentation rs))))) \<and>
           complexTypes r = snd (composeChildren c fname indentation rs)"
  using assms
  by (simp add: Let_def split: sum.splits option.splits prod.splits)
     (fastforce dest!: field_flag)+

lemma field_ignores_unknown:
  assumes "\<not> conditional directives"
  shows "snd (getChildSelections c operation (Field alias fname directives selectionSet) indentation parent u)
       = snd (getChildSelections c operation (Field alias fname None selectionSet) indentation parent u)"
proof -
  obtain ld where d: "isUndefinedFromDirective directives = (ld, False)"
    using directive_flag[of directives] assms by (cases "isUndefinedFromDirective directives") auto
  have n: "isUndefinedFromDirective None = ([], False)"
    by (simp add: isUndefinedFromDirective_def)
  show ?thesis
    by (simp add: d n Let_def split: sum.splits option.splits prod.splits)
qed

lemma convertToType_shape:
  "\<exists>body. \<forall>nn. convertToType c t nn replacement
             = printType (options c) body (nn \<or> (\<exists>t'. t = NonNullOf t'))"
proof (induction t)
  case (Named n)
  show ?case
  proof (cases "\<exists>k vals. getType (parsedSchema c) n = Some (EnumT k vals)")
    case True
    then obtain k vals where "getType (parsedSchema c) n = Some (EnumT k vals)" by blast
    then have "\<forall>nn. convertToType c (Named n) nn replacement
                 = printType (options c)
                     (join '' | '' (map (\<lambda>en. [CHR 0x27] @ en @ [CHR 0x27]) vals)) nn"
      by (simp add: handleEnum_def)
    then show ?thesis by auto
  next
    case False
    then have "\<forall>nn. convertToType c (Named n) nn replacement
                 = handleRegularType c n nn replacement"
      by (auto split: option.splits named_type.splits)
    then show ?thesis by (auto simp: handleRegularType_def Let_def)
  qed
next
  case (ListOf t)
  show ?case by auto
next
  case (NonNullOf t)
  then obtain body where
    "\<forall>nn. convertToType c t nn replacement = printType (options c) body (nn \<or> (\<exists>t'. t = NonNullOf t'))"
    by blast
  then have "convertToType c t True replacement = printType (options c) body True"
    by simp
  then show ?case by auto
qed

subsection \<open>Fragment spreads in the composed intersection\<close>

text \<open>
  C4. A fragment spread is marked partial exactly when it carries a \<^verbatim>\<open>skip\<close> or
  \<^verbatim>\<open>include\<close> directive. In the intersection composed for the enclosing field, the
  spreads of the selection set come last, in order, each as its generated fragment name:
  unwrapped without such a directive, wrapped by \<^verbatim>\<open>wrapPartial\<close> with one.
\<close>

theorem fragment_spread_wrapping:
  "getChildSelections c operation (FragmentSpread sname sdirectives) indentation parent u =
     (fst (isUndefinedFromDirective sdirectives),
      Inr \<lparr>iface = generateFragmentName (options c) sname, isFragment = True,
           isPartial = conditional sdirectives, complexTypes = []\<rparr>)
   \<and> (getChildSelections c operation (Field alias fname directives (Some sels))
         indentation parent u = (l, Inr r)
      \<longrightarrow> (\<exists>ftype others.
             iface r = formatInput (options c)
                         (indentation @ (case alias of Some a \<Rightarrow> a | None \<Rightarrow> fname))
                         (u \<or> conditional directives)
                         (convertToType c ftype False
                            (Some (join '' & ''
                               (others @
                                map (\<lambda>(n, d). if conditional d
                                               then wrapPartial (options c) (generateFragmentName (options c) n)
                                               else generateFragmentName (options c) n)
                                  (spreadsOf sels)))))))"
proof (intro conjI impI)
  show "getChildSelections c operation (FragmentSpread sname sdirectives) indentation parent u =
     (fst (isUndefinedFromDirective sdirectives),
      Inr \<lparr>iface = generateFragmentName (options c) sname, isFragment = True,
           isPartial = conditional sdirectives, complexTypes = []\<rparr>)"
    by (rule spread_result)
next
  assume a: "getChildSelections c operation (Field alias fname directives (Some sels))
         indentation parent u = (l, Inr r)"
  from field_result_nested[OF a] obtain ftype np l' rs where
    m: "mapChildSelections c operation sels (indentation @ ''  '') np False = (l', Inr rs)" and
    i: "iface r = formatInput (options c)
                       (indentation @ (case alias of Some a \<Rightarrow> a | None \<Rightarrow> fname))
                       (u \<or> conditional directives)
                       (convertToType c ftype False
                          (Some (join '' & '' (fst (composeChildren c fname indentation rs)))))"
    by blast
  have "map (wrapPossiblePartial c) (filter isFragment rs) =
          map (\<lambda>(n, d). if conditional d
                         then wrapPartial (options c) (generateFragmentName (options c) n)
                         else generateFragmentName (options c) n) (spreadsOf sels)"
    unfolding spread_results[OF m] by (auto simp: wrapPossiblePartial_def split_def)
  with i compose_fragments[of c fname indentation rs]
  have "iface r = formatInput (options c)
                         (indentation @ (case alias of Some a \<Rightarrow> a | None \<Rightarrow> fname))
                         (u \<or> conditional directives)
                         (convertToType c ftype False
                            (Some (join '' & ''
                               (fst (composeChildren c fname indentation (filter (\<lambda>s. \<not> isFragment s) rs)) @
                                map (\<lambda>(n, d). if conditional d
                                               then wrapPartial (options c) (generateFragmentName (options c) n)
                                               else generateFragmentName (options c) n)
                                  (spreadsOf sels)))))"
    by simp
  then show "\<exists>ftype others.
             iface r = formatInput (options c)
                         (indentation @ (case alias of Some a \<Rightarrow> a | None \<Rightarrow> fname))
                         (u \<or> conditional directives)
                         (convertToType c ftype False
                            (Some (join '' & ''
                               (others @
                                map (\<lambda>(n, d). if conditional d
                                               then wrapPartial (options c) (generateFragmentName (options c) n)
                                               else generateFragmentName (options c) n)
                                  (spreadsOf sels)))))"
    by blast
qed

theorem fragment_spread_wrapping_witness:
  "getChildSelections exampleCtx ''query''
     (Field None ''user'' None (Some [FragmentSpread ''A'' None, FragmentSpread ''B'' (Some [''include''])]))
     ''  '' None False
   = ([], Inr \<lparr>iface = ''  user: IFragmentA & Partial<IFragmentB> | null;'', isFragment = False,
                 isPartial = False, complexTypes = []\<rparr>)
   \<and> (\<exists>ftype others.
         ''  user: IFragmentA & Partial<IFragmentB> | null;'' =
           formatInput (options exampleCtx) ''  user'' False
             (convertToType exampleCtx ftype False
                (Some (join '' & ''
                   (others @ [generateFragmentName (options exampleCtx) ''A'',
                              wrapPartial (options exampleCtx) (generateFragmentName (options exampleCtx) ''B'')])))))"
proof -
  have e: "getChildSelections exampleCtx ''query''
     (Field None ''user'' None (Some [FragmentSpread ''A'' None, FragmentSpread ''B'' (Some [''include''])]))
     ''  '' None False
   = ([], Inr \<lparr>iface = ''  user: IFragmentA & Partial<IFragmentB> | null;'', isFragment = False,
                 isPartial = False, complexTypes = []\<rparr>)"
    by (simp add: walker_defs example_defs)
  show ?thesis
    using e fragment_spread_wrapping[where c=exampleCtx and operation="''query''" and sname="''A''"
        and sdirectives=None and indentation="''  ''" and parent=None and u=False
        and fname="''user''" and directives=None
        and sels="[FragmentSpread ''A'' None, FragmentSpread ''B'' (Some [''include''])]"
        and l="[]"
        and r="\<lparr>iface = ''  user: IFragmentA & Partial<IFragmentB> | null;'', isFragment = False,
                 isPartial = False, complexTypes = []\<rparr>", of None]
    by simp
qed

subsection \<open>Directives\<close>

text \<open>
  C9. The directive check returns true exactly when the directive list contains
  \<^verbatim>\<open>skip\<close> or \<^verbatim>\<open>include\<close>. Any other directive only adds lines to the error log:
  a field whose directives are all unrecognized has the same result (value or error) as
  the same field without directives, and without inherited partiality its line is
  emitted non-optional.
\<close>

theorem unknown_directives_only_diagnosed:
  "(snd (isUndefinedFromDirective directives) \<longleftrightarrow>
      (\<exists>ds. directives = Some ds \<and> (''include'' \<in> set ds \<or> ''skip'' \<in> set ds)))
   \<and> fst (isUndefinedFromDirective directives) =
       (case directives of
          None \<Rightarrow> []
        | Some ds \<Rightarrow>
            (if \<forall>d\<in>set ds. d = ''include'' \<or> d = ''skip'' then []
             else ConsoleError ''Found some unknown directives:'' #
                    map ConsoleError (filter (\<lambda>d. d \<noteq> ''include'' \<and> d \<noteq> ''skip'') ds)))
   \<and> (\<not> conditional directives \<longrightarrow>
        snd (getChildSelections c operation (Field alias fname directives selectionSet) indentation parent u)
          = snd (getChildSelections c operation (Field alias fname None selectionSet) indentation parent u))
   \<and> (\<not> conditional directives \<and>
        getChildSelections c operation (Field alias fname directives selectionSet) indentation parent False
          = (l, Inr r) \<longrightarrow>
        (\<exists>ty. iface r = formatInput (options c)
                          (indentation @ (case alias of Some a \<Rightarrow> a | None \<Rightarrow> fname)) False ty))"
proof (intro conjI impI)
  show "snd (isUndefinedFromDirective directives) \<longleftrightarrow>
      (\<exists>ds. directives = Some ds \<and> (''include'' \<in> set ds \<or> ''skip'' \<in> set ds))"
    by (rule directive_flag)
  show "fst (isUndefinedFromDirective directives) =
       (case directives of
          None \<Rightarrow> []
        | Some ds \<Rightarrow>
            (if \<forall>d\<in>set ds. d = ''include'' \<or> d = ''skip'' then []
             else ConsoleError ''Found some unknown directives:'' #
                    map ConsoleError (filter (\<lambda>d. d \<noteq> ''include'' \<and> d \<noteq> ''skip'') ds)))"
    by (rule directive_log)
next
  assume "\<not> conditional directives"
  then show "snd (getChildSelections c operation (Field alias fname directives selectionSet) indentation parent u)
          = snd (getChildSelections c operation (Field alias fname None selectionSet) indentation parent u)"
    by (rule field_ignores_unknown)
next
  assume a: "\<not> conditional directives \<and>
        getChildSelections c operation (Field alias fname directives selectionSet) indentation parent False
          = (l, Inr r)"
  then have nc: "(False \<or> conditional directives) = False" by blast
  from a have g: "getChildSelections c operation (Field alias fname directives selectionSet)
                    indentation parent False = (l, Inr r)"
    by blast
  from field_result[OF g] obtain ftype childType where
    "iface r = formatInput (options c)
                 (indentation @ (case alias of Some a \<Rightarrow> a | None \<Rightarrow> fname))
                 (False \<or> conditional directives) (convertToType c ftype False childType)"
    by blast
  then have "iface r = formatInput (options c)
                 (indentation @ (case alias of Some a \<Rightarrow> a | None \<Rightarrow> fname))
                 False (convertToType c ftype False childType)"
    unfolding nc .
  then show "\<exists>ty. iface r = formatInput (options c)
                          (indentation @ (case alias of Some a \<Rightarrow> a | None \<Rightarrow> fname)) False ty"
    by blast
qed

theorem unknown_directives_only_diagnosed_witness:
  "\<not> conditional (Some [''client''])
   \<and> isUndefinedFromDirective (Some [''client'']) =
       ([ConsoleError ''Found some unknown directives:'', ConsoleError ''client''], False)
   \<and> getChildSelections exampleCtx ''query'' (Field None ''name'' (Some [''client'']) None) ''  ''
       (Some (ObjectT userType)) False
      = ([ConsoleError ''Found some unknown directives:'', ConsoleError ''client''],
         Inr \<lparr>iface = ''  name: string | null;'', isFragment = False, isPartial = False,
              complexTypes = []\<rparr>)
   \<and> (\<exists>ty. ''  name: string | null;'' = formatInput (options exampleCtx) ''  name'' False ty)"
proof -
  have h: "\<not> conditional (Some [''client''])" by simp
  have e: "getChildSelections exampleCtx ''query'' (Field None ''name'' (Some [''client'']) None) ''  ''
       (Some (ObjectT userType)) False
      = ([ConsoleError ''Found some unknown directives:'', ConsoleError ''client''],
         Inr \<lparr>iface = ''  name: string | null;'', isFragment = False, isPartial = False,
              complexTypes = []\<rparr>)"
    by (simp add: walker_defs example_defs)
  have d: "isUndefinedFromDirective (Some [''client'']) =
       ([ConsoleError ''Found some unknown directives:'', ConsoleError ''client''], False)"
    by (simp add: walker_defs)
  show ?thesis
    using h e d
      unknown_directives_only_diagnosed[where directives="Some [''client'']" and c=exampleCtx
        and operation="''query''" and fname="''name''" and selectionSet=None and indentation="''  ''"
        and parent="Some (ObjectT userType)" and u=False
        and l="[ConsoleError ''Found some unknown directives:'', ConsoleError ''client'']"
        and r="\<lparr>iface = ''  name: string | null;'', isFragment = False, isPartial = False,
              complexTypes = []\<rparr>", of None]
    by simp
qed

subsection \<open>The type map and the composed body\<close>

text \<open>
  C10 as stated fails: with a type-map entry under the name of the field's composite type
  and a nested selection, the composed body is emitted, not the mapped token.
\<close>

theorem type_map_collision_counterexample:
  "getType (parsedSchema collidingCtx) ''User'' = Some (ObjectT userType)
   \<and> tm_get (TypeMap collidingCtx) ''User'' = Some ''MyUser''
   \<and> getChildSelections collidingCtx ''query''
        (Field None ''user'' None (Some [Field None ''id'' None None])) ''  '' None False
      = ([], Inr \<lparr>iface = ''  user: {'' @ ''\<newline>'' @ ''    id: string;'' @ ''\<newline>'' @ ''  } | null;'',
                   isFragment = False, isPartial = False,
                   complexTypes = [\<lparr>ct_iface = ''{'' @ ''\<newline>'' @ ''    id: string;'' @ ''\<newline>'' @ ''  }'',
                                    ct_isPartial = False, ct_name = None\<rparr>]\<rparr>)"
  by (simp add: walker_defs collidingCtx_def example_defs)

text \<open>
  C10, amended. A field with a nested selection set resolves its type with the joined
  intersection of its children as replacement. Whenever the replacement is non-empty, the
  key looked up in the type map is the replacement text itself, not the name of the
  field's type: the composed body is emitted unless the lookup under that text finds a
  non-empty token, which is then emitted instead; an empty token is ignored and the body
  is emitted. The name of the field's type is the key only when the replacement is
  absent or empty: a non-empty token found under the name is emitted, and when nothing or
  an empty token is found the \<^verbatim>\<open>__DEFAULT\<close> token is emitted. A lookup finds the
  \<^verbatim>\<open>__DEFAULT\<close> token under its own key, else an own entry of the merged table, else
  a member inherited from \<^verbatim>\<open>Object.prototype\<close>, and nothing otherwise.
\<close>

theorem regular_type_lookup_key:
  "(rep \<noteq> [] \<and> tm_get (TypeMap c) rep = None \<longrightarrow>
      handleRegularType c typeValue isNonNull (Some rep) = printType (options c) rep isNonNull)
   \<and> (rep \<noteq> [] \<and> tm_get (TypeMap c) rep = Some tok \<and> tok \<noteq> [] \<longrightarrow>
      handleRegularType c typeValue isNonNull (Some rep) = printType (options c) tok isNonNull)
   \<and> (rep \<noteq> [] \<and> tm_get (TypeMap c) rep = Some [] \<longrightarrow>
      handleRegularType c typeValue isNonNull (Some rep) = printType (options c) rep isNonNull)
   \<and> (\<not> truthy replacement \<and> tm_get (TypeMap c) typeValue = Some tok \<and> tok \<noteq> [] \<longrightarrow>
      handleRegularType c typeValue isNonNull replacement = printType (options c) tok isNonNull)
   \<and> (\<not> truthy replacement \<and> tm_get (TypeMap c) typeValue = Some [] \<longrightarrow>
      handleRegularType c typeValue isNonNull replacement
        = printType (options c) (tm_DEFAULT (TypeMap c)) isNonNull)
   \<and> (\<not> truthy replacement \<and> tm_get (TypeMap c) typeValue = None \<longrightarrow>
      handleRegularType c typeValue isNonNull replacement
        = printType (options c) (tm_DEFAULT (TypeMap c)) isNonNull)
   \<and> ((\<forall>k vals. getType (parsedSchema c) n \<noteq> Some (EnumT k vals)) \<longrightarrow>
      convertToType c (Named n) isNonNull replacement = handleRegularType c n isNonNull replacement)
   \<and> (getChildSelections c operation (Field alias fname directives (Some sels)) indentation parent u
        = (l, Inr r) \<longrightarrow>
      (\<exists>ftype np l' rs.
         lookupField c operation parent fname = Inr (Some ftype) \<and>
         mapChildSelections c operation sels (indentation @ ''  '') np False = (l', Inr rs) \<and>
         iface r = formatInput (options c)
                     (indentation @ (case alias of Some a \<Rightarrow> a | None \<Rightarrow> fname))
                     (u \<or> conditional directives)
                     (convertToType c ftype False
                        (Some (join '' & '' (fst (composeChildren c fname indentation rs)))))))
   \<and> tm_get (TypeMap c) ''__DEFAULT'' = Some (tm_DEFAULT (TypeMap c))
   \<and> (key \<noteq> ''__DEFAULT'' \<and> tm_entries (TypeMap c) key = Some tok \<longrightarrow>
        tm_get (TypeMap c) key = Some tok)
   \<and> (key \<noteq> ''__DEFAULT'' \<and> tm_entries (TypeMap c) key = None \<and>
        map_of objectPrototype key = Some ptext \<longrightarrow> tm_get (TypeMap c) key = Some ptext)
   \<and> (key \<noteq> ''__DEFAULT'' \<and> tm_entries (TypeMap c) key = None \<and>
        key \<notin> fst ` set objectPrototype \<longrightarrow> tm_get (TypeMap c) key = None)"
proof -
  have nt: "\<not> truthy replacement \<Longrightarrow> or_else replacement typeValue = typeValue"
    by (cases replacement) auto
  have conv: "(\<forall>k vals. getType (parsedSchema c) n \<noteq> Some (EnumT k vals)) \<Longrightarrow>
      convertToType c (Named n) isNonNull replacement = handleRegularType c n isNonNull replacement"
    by (auto split: option.splits named_type.splits)
  have fld: "getChildSelections c operation (Field alias fname directives (Some sels)) indentation parent u
        = (l, Inr r) \<Longrightarrow>
      (\<exists>ftype np l' rs.
         lookupField c operation parent fname = Inr (Some ftype) \<and>
         mapChildSelections c operation sels (indentation @ ''  '') np False = (l', Inr rs) \<and>
         iface r = formatInput (options c)
                     (indentation @ (case alias of Some a \<Rightarrow> a | None \<Rightarrow> fname))
                     (u \<or> conditional directives)
                     (convertToType c ftype False
                        (Some (join '' & '' (fst (composeChildren c fname indentation rs))))))"
    using field_result_nested[of c operation "alias" fname directives sels indentation parent u l r]
    by blast
  have reg: "(rep \<noteq> [] \<and> tm_get (TypeMap c) rep = None \<longrightarrow>
      handleRegularType c typeValue isNonNull (Some rep) = printType (options c) rep isNonNull)
   \<and> (rep \<noteq> [] \<and> tm_get (TypeMap c) rep = Some tok \<and> tok \<noteq> [] \<longrightarrow>
      handleRegularType c typeValue isNonNull (Some rep) = printType (options c) tok isNonNull)
   \<and> (rep \<noteq> [] \<and> tm_get (TypeMap c) rep = Some [] \<longrightarrow>
      handleRegularType c typeValue isNonNull (Some rep) = printType (options c) rep isNonNull)
   \<and> (\<not> truthy replacement \<and> tm_get (TypeMap c) typeValue = Some tok \<and> tok \<noteq> [] \<longrightarrow>
      handleRegularType c typeValue isNonNull replacement = printType (options c) tok isNonNull)
   \<and> (\<not> truthy replacement \<and> tm_get (TypeMap c) typeValue = Some [] \<longrightarrow>
      handleRegularType c typeValue isNonNull replacement
        = printType (options c) (tm_DEFAULT (TypeMap c)) isNonNull)
   \<and> (\<not> truthy replacement \<and> tm_get (TypeMap c) typeValue = None \<longrightarrow>
      handleRegularType c typeValue isNonNull replacement
        = printType (options c) (tm_DEFAULT (TypeMap c)) isNonNull)"
    by (auto simp: handleRegularType_def Let_def nt)
  have key: "tm_get (TypeMap c) ''__DEFAULT'' = Some (tm_DEFAULT (TypeMap c))
   \<and> (key \<noteq> ''__DEFAULT'' \<and> tm_entries (TypeMap c) key = Some tok \<longrightarrow>
        tm_get (TypeMap c) key = Some tok)
   \<and> (key \<noteq> ''__DEFAULT'' \<and> tm_entries (TypeMap c) key = None \<and>
        map_of objectPrototype key = Some ptext \<longrightarrow> tm_get (TypeMap c) key = Some ptext)
   \<and> (key \<noteq> ''__DEFAULT'' \<and> tm_entries (TypeMap c) key = None \<and>
        key \<notin> fst ` set objectPrototype \<longrightarrow> tm_get (TypeMap c) key = None)"
    by (auto simp: tm_get_def map_of_eq_None_iff)
  from reg conv fld key show ?thesis by blast
qed

theorem regular_type_lookup_key_witness:
  "handleRegularType collidingCtx ''User'' False (Some ''IFragmentA'') = ''IFragmentA | null''
   \<and> handleRegularType collidingCtx ''User'' False (Some ''String'') = ''string | null''
   \<and> handleRegularType collidingCtx ''User'' False (Some ''Blank'') = ''Blank | null''
   \<and> handleRegularType collidingCtx ''User'' False None = ''MyUser | null''
   \<and> handleRegularType collidingCtx ''User'' False (Some []) = ''MyUser | null''
   \<and> handleRegularType collidingCtx ''Blank'' False None = ''any | null''
   \<and> handleRegularType collidingCtx ''Post'' False None = ''any | null''
   \<and> handleRegularType collidingCtx ''toString'' False None
       = ''function toString() { [native code] } | null''
   \<and> convertToType collidingCtx (Named ''User'') False (Some ''IFragmentA'') = ''IFragmentA | null''
   \<and> (\<exists>ftype np l' rs.
         lookupField collidingCtx ''query'' None ''user'' = Inr (Some ftype) \<and>
         mapChildSelections collidingCtx ''query'' [Field None ''id'' None None] (''  '' @ ''  '') np False
           = (l', Inr rs) \<and>
         ''  user: {'' @ ''\<newline>'' @ ''    id: string;'' @ ''\<newline>'' @ ''  } | null;''
           = formatInput (options collidingCtx) ''  user'' False
               (convertToType collidingCtx ftype False
                  (Some (join '' & '' (fst (composeChildren collidingCtx ''user'' ''  '' rs))))))"
proof -
  let ?r = "\<lparr>iface = ''  user: {'' @ ''\<newline>'' @ ''    id: string;'' @ ''\<newline>'' @ ''  } | null;'',
             isFragment = False, isPartial = False,
             complexTypes = [\<lparr>ct_iface = ''{'' @ ''\<newline>'' @ ''    id: string;'' @ ''\<newline>'' @ ''  }'',
                              ct_isPartial = False, ct_name = None\<rparr>]\<rparr>"
  have e1: "tm_entries (TypeMap collidingCtx) ''IFragmentA'' = None"
    "tm_entries (TypeMap collidingCtx) ''Post'' = None"
    "tm_entries (TypeMap collidingCtx) ''toString'' = None"
    "tm_entries (TypeMap collidingCtx) ''String'' = Some ''string''"
    "tm_entries (TypeMap collidingCtx) ''User'' = Some ''MyUser''"
    "tm_entries (TypeMap collidingCtx) ''Blank'' = Some []"
    by (simp_all add: collidingCtx_def)
  have e2: "''IFragmentA'' \<notin> fst ` set objectPrototype" "''Post'' \<notin> fst ` set objectPrototype"
    "map_of objectPrototype ''toString'' = Some ''function toString() { [native code] }''"
    by (simp_all add: objectPrototype_def)
  note k = regular_type_lookup_key[where c=collidingCtx]
  have g1: "tm_get (TypeMap collidingCtx) ''IFragmentA'' = None"
    using k[where key="''IFragmentA''"] e1 e2 by simp
  have g2: "tm_get (TypeMap collidingCtx) ''String'' = Some ''string''"
    using k[where key="''String''" and tok="''string''"] e1 by simp
  have g3: "tm_get (TypeMap collidingCtx) ''User'' = Some ''MyUser''"
    using k[where key="''User''" and tok="''MyUser''"] e1 by simp
  have g4: "tm_get (TypeMap collidingCtx) ''Post'' = None"
    using k[where key="''Post''"] e1 e2 by simp
  have g5: "tm_get (TypeMap collidingCtx) ''Blank'' = Some []"
    using k[where key="''Blank''" and tok="[]"] e1 by simp
  have g6: "tm_get (TypeMap collidingCtx) ''toString'' = Some ''function toString() { [native code] }''"
    using k[where key="''toString''" and ptext="''function toString() { [native code] }''"] e1 e2
    by simp
  have h5: "\<forall>k vals. getType (parsedSchema collidingCtx) ''User'' \<noteq> Some (EnumT k vals)"
    by (simp add: getType_def collidingCtx_def exampleSchema_def)
  have h6: "getChildSelections collidingCtx ''query''
              (Field None ''user'' None (Some [Field None ''id'' None None])) ''  '' None False
            = ([], Inr ?r)"
    by (simp add: walker_defs collidingCtx_def example_defs)
  have p: "printType (options collidingCtx) = (\<lambda>t nn. if nn then t else t @ '' | null'')"
    "tm_DEFAULT (TypeMap collidingCtx) = ''any''"
    by (simp_all add: collidingCtx_def exampleOptions_def)
  have first: "handleRegularType collidingCtx ''User'' False (Some ''IFragmentA'') = ''IFragmentA | null''
   \<and> handleRegularType collidingCtx ''User'' False (Some ''String'') = ''string | null''
   \<and> handleRegularType collidingCtx ''User'' False (Some ''Blank'') = ''Blank | null''
   \<and> handleRegularType collidingCtx ''User'' False None = ''MyUser | null''
   \<and> handleRegularType collidingCtx ''User'' False (Some []) = ''MyUser | null''
   \<and> handleRegularType collidingCtx ''Blank'' False None = ''any | null''
   \<and> handleRegularType collidingCtx ''Post'' False None = ''any | null''
   \<and> handleRegularType collidingCtx ''toString'' False None
       = ''function toString() { [native code] } | null''
   \<and> convertToType collidingCtx (Named ''User'') False (Some ''IFragmentA'') = ''IFragmentA | null''"
    using g1 g2 g3 g4 g5 g6 h5
      k[where rep="''IFragmentA''" and typeValue="''User''"
        and isNonNull=False and n="''User''" and replacement="Some ''IFragmentA''"]
      k[where rep="''String''" and typeValue="''User''" and isNonNull=False and tok="''string''"]
      k[where rep="''Blank''" and typeValue="''User''" and isNonNull=False]
      k[where typeValue="''User''" and replacement=None and isNonNull=False and tok="''MyUser''"]
      k[where typeValue="''User''" and replacement="Some []" and isNonNull=False and tok="''MyUser''"]
      k[where typeValue="''Blank''" and replacement=None and isNonNull=False]
      k[where typeValue="''Post''" and replacement=None and isNonNull=False]
      k[where typeValue="''toString''" and replacement=None and isNonNull=False
        and tok="''function toString() { [native code] }''"]
    by (simp add: p)
  have second: "\<exists>ftype np l' rs.
         lookupField collidingCtx ''query'' None ''user'' = Inr (Some ftype) \<and>
         mapChildSelections collidingCtx ''query'' [Field None ''id'' None None] (''  '' @ ''  '') np False
           = (l', Inr rs) \<and>
         iface ?r
           = formatInput (options collidingCtx)
               (''  '' @ (case None of Some a \<Rightarrow> a | None \<Rightarrow> ''user''))
               (False \<or> conditional None)
               (convertToType collidingCtx ftype False
                  (Some (join '' & '' (fst (composeChildren collidingCtx ''user'' ''  '' rs)))))"
    using h6 k[where operation="''query''"
        and fname="''user''" and directives=None and sels="[Field None ''id'' None None]"
        and indentation="''  ''" and parent=None and u=False and l="[]" and r="?r"]
    by blast
  from second have "\<exists>ftype np l' rs.
         lookupField collidingCtx ''query'' None ''user'' = Inr (Some ftype) \<and>
         mapChildSelections collidingCtx ''query'' [Field None ''id'' None None] (''  '' @ ''  '') np False
           = (l', Inr rs) \<and>
         ''  user: {'' @ ''\<newline>'' @ ''    id: string;'' @ ''\<newline>'' @ ''  } | null;''
           = formatInput (options collidingCtx) ''  user'' False
               (convertToType collidingCtx ftype False
                  (Some (join '' & '' (fst (composeChildren collidingCtx ''user'' ''  '' rs)))))"
    by simp
  with first show ?thesis by blast
qed

subsection \<open>Schema nullability and field optionality\<close>

text \<open>
  C1. The type resolver peels a non-null wrapper by recursing with \<^verbatim>\<open>isNonNull\<close> true,
  so the text of a type is \<^verbatim>\<open>printType\<close> of a body with the flag true exactly when the
  schema type is non-null at the top, and false for a nullable one. The optional marker
  of the field line is the inherited partiality or the presence of a \<^verbatim>\<open>skip\<close> or
  \<^verbatim>\<open>include\<close> directive, whatever the schema says about nullability.
\<close>

theorem nullability_in_type_text_only:
  "convertToType c (NonNullOf t) isNonNull replacement = convertToType c t True replacement
   \<and> (\<exists>body. \<forall>nn. convertToType c t nn replacement
                = printType (options c) body (nn \<or> (\<exists>t'. t = NonNullOf t')))
   \<and> (getChildSelections c operation (Field alias fname directives selectionSet)
         indentation parent u = (l, Inr r)
      \<longrightarrow> (\<exists>ftype body. lookupField c operation parent fname = Inr (Some ftype) \<and>
             iface r = formatInput (options c)
                         (indentation @ (case alias of Some a \<Rightarrow> a | None \<Rightarrow> fname))
                         (u \<or> conditional directives)
                         (printType (options c) body (\<exists>t'. ftype = NonNullOf t'))))"
proof (intro conjI impI)
  show "convertToType c (NonNullOf t) isNonNull replacement = convertToType c t True replacement"
    by simp
  show "\<exists>body. \<forall>nn. convertToType c t nn replacement
                = printType (options c) body (nn \<or> (\<exists>t'. t = NonNullOf t'))"
    by (rule convertToType_shape)
next
  assume g: "getChildSelections c operation (Field alias fname directives selectionSet)
         indentation parent u = (l, Inr r)"
  from field_result[OF g] obtain ftype childType where
    f: "lookupField c operation parent fname = Inr (Some ftype)" and
    i: "iface r = formatInput (options c)
                 (indentation @ (case alias of Some a \<Rightarrow> a | None \<Rightarrow> fname))
                 (u \<or> conditional directives) (convertToType c ftype False childType)"
    by blast
  from convertToType_shape[of c ftype childType] obtain body where
    "convertToType c ftype False childType
       = printType (options c) body (False \<or> (\<exists>t'. ftype = NonNullOf t'))"
    by blast
  then have "convertToType c ftype False childType
       = printType (options c) body (\<exists>t'. ftype = NonNullOf t')"
    by simp
  with f i show "\<exists>ftype body. lookupField c operation parent fname = Inr (Some ftype) \<and>
             iface r = formatInput (options c)
                         (indentation @ (case alias of Some a \<Rightarrow> a | None \<Rightarrow> fname))
                         (u \<or> conditional directives)
                         (printType (options c) body (\<exists>t'. ftype = NonNullOf t'))"
    by (intro exI[of _ ftype] exI[of _ body]) simp
qed

theorem nullability_in_type_text_only_witness:
  "getChildSelections exampleCtx ''query'' (Field None ''id'' (Some [''include'']) None) ''  ''
       (Some (ObjectT userType)) False
     = ([], Inr \<lparr>iface = ''  id?: string;'', isFragment = False, isPartial = False, complexTypes = []\<rparr>)
   \<and> getChildSelections exampleCtx ''query'' (Field None ''name'' None None) ''  ''
       (Some (ObjectT userType)) False
     = ([], Inr \<lparr>iface = ''  name: string | null;'', isFragment = False, isPartial = False,
                  complexTypes = []\<rparr>)
   \<and> (\<exists>ftype body. lookupField exampleCtx ''query'' (Some (ObjectT userType)) ''id'' = Inr (Some ftype) \<and>
         ''  id?: string;'' = formatInput (options exampleCtx) ''  id'' True
                                (printType (options exampleCtx) body (\<exists>t'. ftype = NonNullOf t')))"
proof -
  have e: "getChildSelections exampleCtx ''query'' (Field None ''id'' (Some [''include'']) None) ''  ''
       (Some (ObjectT userType)) False
     = ([], Inr \<lparr>iface = ''  id?: string;'', isFragment = False, isPartial = False, complexTypes = []\<rparr>)"
    by (simp add: walker_defs example_defs)
  have e2: "getChildSelections exampleCtx ''query'' (Field None ''name'' None None) ''  ''
       (Some (ObjectT userType)) False
     = ([], Inr \<lparr>iface = ''  name: string | null;'', isFragment = False, isPartial = False,
                  complexTypes = []\<rparr>)"
    by (simp add: walker_defs example_defs)
  show ?thesis
    using e e2
      nullability_in_type_text_only[where c=exampleCtx and operation="''query''" and fname="''id''"
        and directives="Some [''include'']" and selectionSet=None and indentation="''  ''"
        and parent="Some (ObjectT userType)" and u=False and l="[]"
        and r="\<lparr>iface = ''  id?: string;'', isFragment = False, isPartial = False, complexTypes = []\<rparr>",
        of _ _ _ None]
    by simp
qed

subsection \<open>Inline fragments\<close>







subsection \<open>An operation whose root type the schema lacks\<close>

lemma map_fails:
  "s \<in> set sels \<Longrightarrow> snd (getChildSelections c operation s indentation parent u) = Inl e \<Longrightarrow>
     \<exists>e'. snd (mapChildSelections c operation sels indentation parent u) = Inl e'"
proof (induction sels)
  case Nil
  then show ?case by simp
next
  case (Cons x sels)
  show ?case
  proof (cases "getChildSelections c operation x indentation parent u")
    case (Pair l1 res)
    show ?thesis
    proof (cases res)
      case (Inl e1)
      with Pair show ?thesis by simp
    next
      case (Inr r)
      with Pair Cons.prems have "s \<in> set sels" by auto
      from Cons.IH[OF this Cons.prems(2)] obtain e' where
        "snd (mapChildSelections c operation sels indentation parent u) = Inl e'" by blast
      with Pair Inr show ?thesis
        by (cases "mapChildSelections c operation sels indentation parent u") auto
    qed
  qed
qed

lemma doIt_fails:
  "d \<in> set defs \<Longrightarrow> snd (convertDefinition c d) = Inl e \<Longrightarrow> \<exists>e'. snd (doIt c defs) = Inl e'"
proof (induction defs)
  case Nil
  then show ?case by simp
next
  case (Cons x defs)
  show ?case
  proof (cases "convertDefinition c x")
    case (Pair l1 res)
    show ?thesis
    proof (cases res)
      case (Inl e1)
      with Pair show ?thesis by simp
    next
      case (Inr r)
      with Pair Cons.prems have "d \<in> set defs" by auto
      from Cons.IH[OF this Cons.prems(2)] obtain e' where "snd (doIt c defs) = Inl e'" by blast
      with Pair Inr show ?thesis
        by (cases "doIt c defs") auto
    qed
  qed
qed

lemma root_field_fails:
  "getOperationFields c operation = Inr None \<Longrightarrow>
     getChildSelections c operation (Field alias fname directives selectionSet) indentation None u
       = ([], Inl TypeError)"
  by (simp add: lookupField_def)

lemma operation_fails:
  assumes "getOperationFields c operation = Inr None" "Field a n d ss \<in> set sels"
  shows "\<exists>e. snd (convertDefinition c (OperationDefinition operation opname vars sels)) = Inl e"
proof -
  have "snd (getChildSelections c operation (Field a n d ss) ''  '' None False) = Inl TypeError"
    using root_field_fails[OF assms(1)] by simp
  from map_fails[OF assms(2) this] obtain e' where
    "snd (mapChildSelections c operation sels ''  '' None False) = Inl e'" by blast
  then show ?thesis
    by (cases "mapChildSelections c operation sels ''  '' None False")
       (auto simp: convertDefinition_def Let_def)
qed

text \<open>
  C7 as stated fails: a mutation whose only top-level selection is a fragment spread
  converts to an output record although the schema has no mutation type, because the
  root type is only read when a field is resolved without a composite parent.
\<close>

theorem missing_root_type_counterexample:
  "mutationType (parsedSchema exampleCtx) = None
   \<and> doIt exampleCtx [OperationDefinition ''mutation'' None None [FragmentSpread ''F'' None]]
     = ([], Inr [\<lparr>variables = [], interface = ''Anonymous {IFragmentF}'', additionalTypes = []\<rparr>])"
  by (simp add: convertDefinition_def variablesToInterface_def buildAdditionalTypes_def
        walker_defs example_defs)

lemma spreads_succeed:
  "\<forall>s\<in>set sels. \<exists>sn sd. s = FragmentSpread sn sd \<Longrightarrow>
     \<exists>l rs. mapChildSelections c operation sels indentation parent u = (l, Inr rs)"
proof (induction sels)
  case Nil
  then show ?case by simp
next
  case (Cons s sels)
  then obtain sn sd where s: "s = FragmentSpread sn sd" by auto
  from Cons obtain l rs where
    "mapChildSelections c operation sels indentation parent u = (l, Inr rs)" by auto
  with s show ?case
    by (cases "isUndefinedFromDirective sd") simp
qed

lemma spread_operation_succeeds:
  assumes "\<forall>s\<in>set sels. \<exists>sn sd. s = FragmentSpread sn sd"
  shows "\<exists>l r. doIt c [OperationDefinition operation opname vars sels] = (l, Inr [r])"
proof -
  from spreads_succeed[OF assms] obtain l rs where
    "mapChildSelections c operation sels ''  '' None False = (l, Inr rs)" by blast
  then show ?thesis
    by (simp add: convertDefinition_def Let_def)
qed

text \<open>
  C7, amended. If the root type of an operation's kind is absent from the schema and the
  operation selects a field at its top level, the conversion of the whole document ends
  in an error and yields no output record, whatever the other definitions are. The walk
  of such a field ends in the TypeError of reading the fields of the absent root type,
  not in a structured configuration error; when that field is the first selection of the
  only definition, this TypeError is the result of the run and nothing is logged. An
  operation whose top-level selections are all fragment spreads is converted without
  error, whether or not its root type is present.
\<close>

theorem missing_root_type_aborts:
  "(((operation = ''query'' \<and> queryType (parsedSchema c) = None) \<or>
     (operation = ''mutation'' \<and> mutationType (parsedSchema c) = None) \<or>
     (operation = ''subscription'' \<and> subscriptionType (parsedSchema c) = None))
    \<longrightarrow>
      ((OperationDefinition operation opname vars sels \<in> set defs \<and> Field a n d ss \<in> set sels
         \<longrightarrow> (\<exists>e. snd (doIt c defs) = Inl e))
       \<and> doIt c [OperationDefinition operation opname vars (Field a n d ss # rest)]
           = ([], Inl TypeError)
       \<and> getChildSelections c operation (Field a n d ss) indentation None u = ([], Inl TypeError)))
   \<and> ((\<forall>s\<in>set spreads. \<exists>sn sd. s = FragmentSpread sn sd)
      \<longrightarrow> (\<exists>l r. doIt c [OperationDefinition operation opname vars spreads] = (l, Inr [r])))"
proof (intro impI conjI)
  assume "(operation = ''query'' \<and> queryType (parsedSchema c) = None) \<or>
    (operation = ''mutation'' \<and> mutationType (parsedSchema c) = None) \<or>
    (operation = ''subscription'' \<and> subscriptionType (parsedSchema c) = None)"
  then have g: "getOperationFields c operation = Inr None"
    by (auto simp: getOperationFields_def)
  {
    assume h: "OperationDefinition operation opname vars sels \<in> set defs \<and> Field a n d ss \<in> set sels"
    from operation_fails[OF g, of a n d ss sels opname vars] h obtain e where
      "snd (convertDefinition c (OperationDefinition operation opname vars sels)) = Inl e" by blast
    from doIt_fails[OF _ this] h show "\<exists>e. snd (doIt c defs) = Inl e" by blast
  }
  show "doIt c [OperationDefinition operation opname vars (Field a n d ss # rest)] = ([], Inl TypeError)"
    using root_field_fails[OF g, of a n d ss "''  ''" False]
    by (simp add: convertDefinition_def Let_def)
  show "getChildSelections c operation (Field a n d ss) indentation None u = ([], Inl TypeError)"
    by (rule root_field_fails[OF g])
next
  assume "\<forall>s\<in>set spreads. \<exists>sn sd. s = FragmentSpread sn sd"
  then show "\<exists>l r. doIt c [OperationDefinition operation opname vars spreads] = (l, Inr [r])"
    by (rule spread_operation_succeeds)
qed

theorem missing_root_type_aborts_witness:
  "mutationType (parsedSchema exampleCtx) = None
   \<and> snd (doIt exampleCtx
        [OperationDefinition ''query'' None None [Field None ''user'' None None],
         OperationDefinition ''mutation'' None None
           [FragmentSpread ''F'' None, Field None ''addUser'' None None]]) = Inl TypeError
   \<and> doIt exampleCtx [OperationDefinition ''mutation'' None None [Field None ''addUser'' None None]]
       = ([], Inl TypeError)
   \<and> getChildSelections exampleCtx ''mutation'' (Field None ''addUser'' None None) ''  '' None False
       = ([], Inl TypeError)
   \<and> (\<exists>l r. doIt exampleCtx
               [OperationDefinition ''mutation'' None None
                  [FragmentSpread ''F'' None, FragmentSpread ''G'' (Some [''skip''])]] = (l, Inr [r]))"
proof -
  let ?m = "OperationDefinition ''mutation'' None None
              [FragmentSpread ''F'' None, Field None ''addUser'' None None]"
  let ?defs = "[OperationDefinition ''query'' None None [Field None ''user'' None None], ?m]"
  have h: "mutationType (parsedSchema exampleCtx) = None"
    by (simp add: example_defs)
  have m: "?m \<in> set ?defs \<and>
           Field None ''addUser'' None None \<in> set [FragmentSpread ''F'' None, Field None ''addUser'' None None]"
    by simp
  from h m missing_root_type_aborts[where c=exampleCtx and operation="''mutation''" and opname=None
      and vars=None and sels="[FragmentSpread ''F'' None, Field None ''addUser'' None None]"
      and defs="?defs" and a=None and n="''addUser''" and d=None and ss=None and rest="[]"
      and indentation="''  ''" and u=False, THEN conjunct1]
  have ab: "\<exists>e. snd (doIt exampleCtx ?defs) = Inl e"
    and one: "doIt exampleCtx [OperationDefinition ''mutation'' None None [Field None ''addUser'' None None]]
       = ([], Inl TypeError)"
    and walk: "getChildSelections exampleCtx ''mutation'' (Field None ''addUser'' None None) ''  ''
                 None False = ([], Inl TypeError)"
    by blast+
  have sp: "\<forall>s\<in>set [FragmentSpread ''F'' None, FragmentSpread ''G'' (Some [''skip''])].
              \<exists>sn sd. s = FragmentSpread sn sd"
    by simp
  from sp missing_root_type_aborts[where c=exampleCtx and operation="''mutation''" and opname=None
      and vars=None and spreads="[FragmentSpread ''F'' None, FragmentSpread ''G'' (Some [''skip''])]",
      THEN conjunct2]
  have ok: "\<exists>l r. doIt exampleCtx
               [OperationDefinition ''mutation'' None None
                  [FragmentSpread ''F'' None, FragmentSpread ''G'' (Some [''skip''])]] = (l, Inr [r])"
    by blast
  have "case snd (doIt exampleCtx ?defs) of Inl e \<Rightarrow> e = TypeError | Inr r \<Rightarrow> True"
    by (simp add: convertDefinition_def variablesToInterface_def buildAdditionalTypes_def
        walker_defs example_defs)
  with ab have "snd (doIt exampleCtx ?defs) = Inl TypeError" by auto
  with h one walk ok show ?thesis by blast
qed

subsection \<open>Unresolved fields\<close>

text \<open>
  C8 as stated fails: a selection without a nested selection set that names an absent
  field ends in the TypeError with nothing logged.
\<close>

theorem unresolved_leaf_field_counterexample:
  "lookupField exampleCtx ''query'' (Some (ObjectT userType)) ''nope'' = Inr None
   \<and> getChildSelections exampleCtx ''query'' (Field None ''nope'' None None) ''  ''
       (Some (ObjectT userType)) False = ([], Inl TypeError)"
  by (simp add: walker_defs example_defs)

text \<open>
  C8, amended. A selection naming a field absent from its parent (for a union, absent
  from every member) is not reported by a structured error. With a nested selection set
  the walker logs the selection and then ends in the TypeError of reading the type of the
  missing field; without a nested selection set it ends in the same TypeError with no
  diagnostic of the missing field. In both cases the only earlier log lines are those of
  the directive check.
\<close>

theorem unresolved_field_crashes:
  "(lookupField c operation parent fname = Inr None \<longrightarrow>
      getChildSelections c operation (Field alias fname directives (Some sels)) indentation parent u
        = ((if u then [] else fst (isUndefinedFromDirective directives)) @
             [ConsoleLog (Field alias fname directives (Some sels))],
           Inl TypeError)
      \<and> getChildSelections c operation (Field alias fname directives None) indentation parent u
        = ((if u then [] else fst (isUndefinedFromDirective directives)), Inl TypeError))
   \<and> (map_of (obj_fields t) fname = None \<longrightarrow>
        lookupField c operation (Some (ObjectT t)) fname = Inr None)
   \<and> (map_of fs fname = None \<longrightarrow>
        lookupField c operation (Some (InterfaceT n fs)) fname = Inr None)
   \<and> ((\<forall>t\<in>set ts. map_of (obj_fields t) fname = None) \<longrightarrow>
        lookupField c operation (Some (UnionT n ts)) fname = Inr None)"
proof (intro conjI impI)
  assume a: "lookupField c operation parent fname = Inr None"
  show "getChildSelections c operation (Field alias fname directives (Some sels)) indentation parent u
        = ((if u then [] else fst (isUndefinedFromDirective directives)) @
             [ConsoleLog (Field alias fname directives (Some sels))],
           Inl TypeError)"
    using a by (cases "isUndefinedFromDirective directives") (simp add: Let_def)
  show "getChildSelections c operation (Field alias fname directives None) indentation parent u
        = ((if u then [] else fst (isUndefinedFromDirective directives)), Inl TypeError)"
    using a by (cases "isUndefinedFromDirective directives") (simp add: Let_def)
next
  assume "map_of (obj_fields t) fname = None"
  then show "lookupField c operation (Some (ObjectT t)) fname = Inr None"
    by (simp add: lookupField_def)
next
  assume "map_of fs fname = None"
  then show "lookupField c operation (Some (InterfaceT n fs)) fname = Inr None"
    by (simp add: lookupField_def)
next
  assume "\<forall>t\<in>set ts. map_of (obj_fields t) fname = None"
  then show "lookupField c operation (Some (UnionT n ts)) fname = Inr None"
    by (rule lookupField_union_none)
qed

theorem unresolved_field_crashes_witness:
  "getChildSelections exampleCtx ''query'' (Field None ''nope'' (Some [''client'']) (Some [Field None ''id'' None None]))
       ''  '' (Some (UnionT ''SearchResult'' [postType, userType])) False
     = ([ConsoleError ''Found some unknown directives:'', ConsoleError ''client'',
         ConsoleLog (Field None ''nope'' (Some [''client'']) (Some [Field None ''id'' None None]))],
        Inl TypeError)
   \<and> getChildSelections exampleCtx ''query'' (Field None ''nope'' (Some [''client'']) None)
       ''  '' (Some (UnionT ''SearchResult'' [postType, userType])) False
     = ([ConsoleError ''Found some unknown directives:'', ConsoleError ''client''], Inl TypeError)
   \<and> lookupField exampleCtx ''query'' (Some (ObjectT userType)) ''nope'' = Inr None
   \<and> lookupField exampleCtx ''query'' (Some (InterfaceT ''Node'' [(''id'', Named ''ID'')])) ''nope'' = Inr None"
proof -
  have h: "\<forall>t\<in>set [postType, userType]. map_of (obj_fields t) ''nope'' = None"
    by (simp add: postType_def userType_def)
  have h2: "map_of (obj_fields userType) ''nope'' = None"
    by (simp add: userType_def)
  have h3: "map_of [(''id'', Named ''ID'')] ''nope'' = None"
    by simp
  note t = unresolved_field_crashes[where c=exampleCtx and operation="''query''"
      and parent="Some (UnionT ''SearchResult'' [postType, userType])" and fname="''nope''"
      and directives="Some [''client'']" and sels="[Field None ''id'' None None]"
      and indentation="''  ''" and u=False and ts="[postType, userType]" and n="''SearchResult''"
      and t=userType and fs="[(''id'', Named ''ID'')]", of None]
  note t' = unresolved_field_crashes[where c=exampleCtx and operation="''query''"
      and fname="''nope''" and n="''Node''"
      and t=userType and fs="[(''id'', Named ''ID'')]"]
  have d: "fst (isUndefinedFromDirective (Some [''client''])) =
            [ConsoleError ''Found some unknown directives:'', ConsoleError ''client'']"
    by (simp add: isUndefinedFromDirective_def UndefinedDirectives_def)
  from t h have l: "lookupField exampleCtx ''query'' (Some (UnionT ''SearchResult'' [postType, userType])) ''nope'' = Inr None"
    by blast
  from t l d h2 h3 t' show ?thesis by simp
qed

subsection \<open>Auxiliary types under inline fragments\<close>

text \<open>
  C2, evaluated where the code departs from it. The walker call for \<^verbatim>\<open>friend { id }\<close>
  generates the auxiliary type \<^verbatim>\<open>SelectionOnfriend\<close>; the inline fragment around it
  returns no auxiliary types, so for
  \<^verbatim>\<open>{ user { ... on User { friend { id } } } }\<close> the final list holds
  \<^verbatim>\<open>SelectionOnuser\<close> only, whose body refers to the missing \<^verbatim>\<open>SelectionOnfriend\<close>.
\<close>

theorem inline_fragment_drops_complex_types:
  "getChildSelections exampleCtx ''query'' (Field None ''friend'' None (Some [Field None ''id'' None None]))
       ''    '' (Some (ObjectT userType)) True
     = ([], Inr \<lparr>iface = ''    friend?: SelectionOnfriend | null;'', isFragment = False, isPartial = False,
                  complexTypes = [\<lparr>ct_iface = ''{'' @ ''\<newline>'' @ ''      id: string;'' @ ''\<newline>'' @ ''    }'',
                                   ct_isPartial = False, ct_name = Some ''SelectionOnfriend''\<rparr>]\<rparr>)
   \<and> getChildSelections exampleCtx ''query''
       (InlineFragment (Some ''User'') None [Field None ''friend'' None (Some [Field None ''id'' None None])])
       ''    '' (Some (ObjectT userType)) False
     = ([], Inr \<lparr>iface = ''    friend?: SelectionOnfriend | null;'', isFragment = False, isPartial = False,
                  complexTypes = []\<rparr>)
   \<and> doIt exampleCtx
       [OperationDefinition ''query'' None None
          [Field None ''user'' None
             (Some [InlineFragment (Some ''User'') None
                      [Field None ''friend'' None (Some [Field None ''id'' None None])]])]]
     = ([], Inr [\<lparr>variables = [],
                  interface = ''Anonymous {  user: SelectionOnuser | null;}'',
                  additionalTypes =
                    [''export interface SelectionOnuser {'' @ ''\<newline>'' @
                     ''    friend?: SelectionOnfriend | null;'' @ ''\<newline>'' @ ''  }'']\<rparr>])"
  by (simp add: convertDefinition_def variablesToInterface_def buildAdditionalTypes_def
        renderComplexType_def walker_defs example_defs)

subsection \<open>The partial flag of an inline fragment\<close>

text \<open>
  C5, evaluated where the code departs from it. An inline fragment with \<^verbatim>\<open>@include\<close>
  returns \<^verbatim>\<open>isPartial\<close> true. At the top level of an operation the assembler reads only
  the lines of the result, and an enclosing inline fragment does the same: in both
  outputs the field is neither marked optional nor wrapped by \<^verbatim>\<open>wrapPartial\<close>.
\<close>

theorem inline_fragment_partial_flag_dropped:
  "getChildSelections exampleCtx ''query''
       (InlineFragment None (Some [''include'']) [Field None ''user'' None (Some [Field None ''id'' None None])])
       ''  '' None False
     = ([], Inr \<lparr>iface = ''  user: SelectionOnuser | null;'', isFragment = False, isPartial = True,
                  complexTypes = []\<rparr>)
   \<and> doIt exampleCtx
       [OperationDefinition ''query'' None None
          [InlineFragment None (Some [''include''])
             [Field None ''user'' None (Some [Field None ''id'' None None])]]]
     = ([], Inr [\<lparr>variables = [],
                  interface = ''Anonymous {  user: SelectionOnuser | null;}'',
                  additionalTypes = []\<rparr>])
   \<and> getChildSelections exampleCtx ''query''
       (Field None ''user'' None
          (Some [InlineFragment None None
                   [InlineFragment None (Some [''include'']) [Field None ''id'' None None]]]))
       ''  '' None False
     = ([], Inr \<lparr>iface = ''  user: SelectionOnuser | null;'', isFragment = False, isPartial = False,
                  complexTypes = [\<lparr>ct_iface = ''{'' @ ''\<newline>'' @ ''    id: string;'' @ ''\<newline>'' @ ''  }'',
                                   ct_isPartial = False, ct_name = Some ''SelectionOnuser''\<rparr>]\<rparr>)"
  by (simp add: convertDefinition_def variablesToInterface_def buildAdditionalTypes_def
        renderComplexType_def walker_defs example_defs)

end
